theory Spec2Isabelle
  imports Complex_Main "HOL-Library.Word"
begin

section \<open>JavaScript values\<close>

text \<open>
  The programs are JavaScript and TypeScript: the orchestrator (the Lambda \<open>handler\<close> with
  \<open>makeResults\<close>), the gateway route \<open>POST /ai-draft\<close> of \<open>createQueryRouter\<close>, and
  \<open>BedrockApiClient.invokeQuery\<close> between them. Request and response bodies are JSON, so a
  field may hold any JSON value, or be missing (\<open>JUndefined\<close>).

  A string is a list of 8-bit characters (the Latin-1 code units). A number is a safe
  integer, from \<open>-2^53\<close> to \<open>2^53 - 1\<close>, held as a signed 54-bit word: these are doubles
  that JavaScript prints in plain decimal and that JSON carries unchanged; fractions,
  larger numbers and the non-finite ones are outside the model. An object is an
  association list with distinct keys, as \<open>JSON.parse\<close> leaves it.
\<close>

datatype jsval =
    JUndefined
  | JNull
  | JBool bool
  | JNum "54 word"
  | JStr string
  | JArr "jsval list"
  | JObj "(string \<times> jsval) list"

text \<open>Everything thrown in these programs is an \<open>Error\<close> object; only its message is read.\<close>

datatype js_error = Error string

fun err_message :: "js_error \<Rightarrow> string" where
  "err_message (Error m) = m"

text \<open>Truthiness, as \<open>!x\<close>, \<open>x && y\<close> and \<open>x || y\<close> test it.\<close>

fun js_truthy :: "jsval \<Rightarrow> bool" where
  "js_truthy JUndefined = False"
| "js_truthy JNull = False"
| "js_truthy (JBool b) = b"
| "js_truthy (JNum n) = (n \<noteq> 0)"
| "js_truthy (JStr s) = (s \<noteq> [])"
| "js_truthy (JArr xs) = True"
| "js_truthy (JObj fs) = True"

definition js_or :: "jsval \<Rightarrow> jsval \<Rightarrow> jsval" where
  "js_or a b = (if js_truthy a then a else b)"

fun typeof_string :: "jsval \<Rightarrow> bool" where
  "typeof_string (JStr s) = True"
| "typeof_string v = False"

fun str_of :: "jsval \<Rightarrow> string" where
  "str_of (JStr s) = s"
| "str_of v = []"

fun isArray :: "jsval \<Rightarrow> bool" where
  "isArray (JArr xs) = True"
| "isArray v = False"

fun elements :: "jsval \<Rightarrow> jsval list" where
  "elements (JArr xs) = xs"
| "elements v = []"

text \<open>\<open>Array.prototype.join\<close> on strings.\<close>

fun join :: "string \<Rightarrow> string list \<Rightarrow> string" where
  "join sep [] = []"
| "join sep [x] = x"
| "join sep (x # y # ys) = x @ sep @ join sep (y # ys)"

text \<open>Decimal rendering of a number inside a template literal.\<close>

definition digit_char :: "nat \<Rightarrow> char" where
  "digit_char d = ''0123456789'' ! d"

fun decimal :: "nat \<Rightarrow> string" where
  "decimal n = (if 10 \<le> n then decimal (n div 10) else []) @ [digit_char (n mod 10)]"

declare decimal.simps [simp del]

definition number_to_string :: "54 word \<Rightarrow> string" where
  "number_to_string n =
     (if 0 \<le> sint n then decimal (nat (sint n)) else CHR ''-'' # decimal (nat (- sint n)))"

text \<open>
  \<open>ToString\<close>, as a template literal \<open>`${v}`\<close> applies it. An array joins its elements
  with commas (\<open>null\<close> and \<open>undefined\<close> elements as empty strings). A plain object is
  \<open>[object Object]\<close>, unless it has a key \<open>toString\<close> of its own: a JSON value is not
  callable, the inherited \<open>valueOf\<close> gives back the object, and the conversion throws a
  TypeError. The first element that throws ends the conversion of an array.
\<close>

fun collect :: "(js_error + string) list \<Rightarrow> js_error + string list" where
  "collect [] = Inr []"
| "collect (Inl e # rs) = Inl e"
| "collect (Inr s # rs) = (case collect rs of Inl e \<Rightarrow> Inl e | Inr ss \<Rightarrow> Inr (s # ss))"

fun js_to_string :: "jsval \<Rightarrow> js_error + string" where
  "js_to_string JUndefined = Inr ''undefined''"
| "js_to_string JNull = Inr ''null''"
| "js_to_string (JBool b) = Inr (if b then ''true'' else ''false'')"
| "js_to_string (JNum n) = Inr (number_to_string n)"
| "js_to_string (JStr s) = Inr s"
| "js_to_string (JArr xs) =
     (case collect (map (\<lambda>v. if v = JNull \<or> v = JUndefined then Inr [] else js_to_string v) xs) of
        Inl e \<Rightarrow> Inl e
      | Inr ss \<Rightarrow> Inr (join '','' ss))"
| "js_to_string (JObj fs) =
     (if ''toString'' \<in> set (map fst fs) then Inl (Error ''Cannot convert object to primitive value'')
      else Inr ''[object Object]'')"

text \<open>
  Reading a property. The names read by these programs are \<open>role\<close>, \<open>content\<close>,
  \<open>text\<close>, \<open>response\<close>, \<open>citation\<close> and \<open>sessionId\<close>: none is an index, \<open>length\<close> or a
  built-in property, so only an object can have one; \<open>null\<close> and \<open>undefined\<close> throw a
  TypeError (the message is the one of the Node.js runtime).
\<close>

fun js_prop :: "jsval \<Rightarrow> string \<Rightarrow> js_error + jsval" where
  "js_prop JUndefined name =
     Inl (Error (''Cannot read properties of undefined (reading '' @ [CHR 0x27] @ name @ [CHR 0x27] @ '')''))"
| "js_prop JNull name =
     Inl (Error (''Cannot read properties of null (reading '' @ [CHR 0x27] @ name @ [CHR 0x27] @ '')''))"
| "js_prop (JObj fs) name = Inr (case map_of fs name of None \<Rightarrow> JUndefined | Some v \<Rightarrow> v)"
| "js_prop v name = Inr JUndefined"

text \<open>Reading index 0: \<open>v[0]\<close>.\<close>

fun js_index0 :: "jsval \<Rightarrow> js_error + jsval" where
  "js_index0 JUndefined = Inl (Error ''Cannot read properties of undefined (reading '0')'')"
| "js_index0 JNull = Inl (Error ''Cannot read properties of null (reading '0')'')"
| "js_index0 (JArr xs) = Inr (case xs of [] \<Rightarrow> JUndefined | x # _ \<Rightarrow> x)"
| "js_index0 (JStr s) = Inr (case s of [] \<Rightarrow> JUndefined | c # _ \<Rightarrow> JStr [c])"
| "js_index0 (JObj fs) = Inr (case map_of fs ''0'' of None \<Rightarrow> JUndefined | Some v \<Rightarrow> v)"
| "js_index0 v = Inr JUndefined"

text \<open>\<open>String.prototype.includes\<close>: the needle occurs as a contiguous run.\<close>

fun starts_with :: "string \<Rightarrow> string \<Rightarrow> bool" where
  "starts_with [] s = True"
| "starts_with (c # cs) [] = False"
| "starts_with (c # cs) (d # ds) = (c = d \<and> starts_with cs ds)"

fun includes_str :: "string \<Rightarrow> string \<Rightarrow> bool" where
  "includes_str [] needle = (needle = [])"
| "includes_str (c # cs) needle = (starts_with needle (c # cs) \<or> includes_str cs needle)"

text \<open>
  \<open>String.prototype.trim\<close>: white space and line terminators are removed from both ends.
  Within Latin-1 these are TAB, LF, VT, FF, CR, SPACE and NBSP.
\<close>

definition is_js_whitespace :: "char \<Rightarrow> bool" where
  "is_js_whitespace c = (c \<in> set [CHR 0x09, CHR 0x0A, CHR 0x0B, CHR 0x0C, CHR 0x0D, CHR 0x20, CHR 0xA0])"

definition js_trim :: "string \<Rightarrow> string" where
  "js_trim s = rev (dropWhile is_js_whitespace (rev (dropWhile is_js_whitespace s)))"

section \<open>The orchestrator\<close>

text \<open>The fixed system instruction.\<close>

definition SYSTEM_PROMPT :: string where
  \<open>SYSTEM_PROMPT =
     ''You are an AI assistant helping customer service representatives draft professional email replies to customers at Silver Bullion.\<newline>'' @
     ''\<newline>'' @
     ''<critical_rules>\<newline>'' @
     ''- Write as if you ARE the CS rep speaking directly to the customer\<newline>'' @
     ''- Use "I" or "we" when referring to the company/team\<newline>'' @
     ''- Address the customer as "you"\<newline>'' @
     ''- NEVER write numbered step-by-step instructions like "1. Do this, 2. Do that"\<newline>'' @
     ''- NEVER use tutorial language like "To create X, follow these steps..."\<newline>'' @
     ''- Instead, explain things conversationally: "You can do X by going to Y" or "Here's how it works..."\<newline>'' @
     ''- Keep it friendly, helpful, and conversational\<newline>'' @
     ''- Keep the reply concise (2-4 short paragraphs max)\<newline>'' @
     ''- Use proper line breaks between paragraphs for readability\<newline>'' @
     ''</critical_rules>\<newline>'' @
     ''\<newline>'' @
     ''<anti_hallucination_rules>\<newline>'' @
     ''CRITICAL - READ THIS CAREFULLY:\<newline>'' @
     ''- You MUST ONLY answer questions using information from the company knowledge provided\<newline>'' @
     ''- If the company knowledge is empty, does not contain relevant information, or the question is unrelated to company products/services, respond with:\<newline>'' @
     ''  "Thanks for reaching out! I don't have specific information about that in our system right now. Let me look into this for you and get back to you with accurate details, or I can connect you with someone who can help right away. Would that work for you?"\<newline>'' @
     ''- NEVER make up information, prices, policies, exchange rates, or facts\<newline>'' @
     ''- NEVER use your general knowledge to answer questions\<newline>'' @
     ''- If you're unsure whether the knowledge base covers the question, default to saying you don't know\<newline>'' @
     ''- It's BETTER to say "I don't know" than to provide incorrect information\<newline>'' @
     ''</anti_hallucination_rules>\<newline>'' @
     ''\<newline>'' @
     ''<tone_guidelines>\<newline>'' @
     ''- Friendly and approachable (like texting a colleague, but professional)\<newline>'' @
     ''- Empathetic - acknowledge their question/concern\<newline>'' @
     ''- Helpful - give them what they need to know\<newline>'' @
     ''- Conversational - not robotic or overly formal\<newline>'' @
     ''- Brief - respect their time\<newline>'' @
     ''</tone_guidelines>\<newline>'' @
     ''\<newline>'' @
     ''Continue the email reply that has been started for you. The greeting "Hi {{CUSTOMER_NAME}}," has already been provided.\<newline>'' @
     ''\<newline>'' @
     ''You must end your response with:\<newline>'' @
     ''\<newline>'' @
     ''Thanks,\<newline>'' @
     ''{{CS_REP_NAME}}\<newline>'' @
     ''\<newline>'' @
     ''Make sure to include blank lines between paragraphs for readability.''\<close>


text \<open>
  What the Knowledge Retriever returns, as the handler reads it. \<open>None\<close> is
  \<open>undefined\<close>. Optional chains are flattened: \<open>content_text\<close> is
  \<open>result.content?.text\<close>, \<open>s3Location_uri\<close> is \<open>location.s3Location?.uri\<close> and
  \<open>webLocation_url\<close> is \<open>location.webLocation?.url\<close>.
\<close>

record RetrievalResultLocation =
  loc_type :: string
  s3Location_uri :: "string option"
  webLocation_url :: "string option"

record RetrievalResult =
  content_text :: "string option"
  location :: "RetrievalResultLocation option"

record RetrieveResponse =
  retrievalResults :: "RetrievalResult list option"

text \<open>The input of the \<open>RetrieveCommand\<close>; \<open>knowledgeBaseId\<close> is \<open>process.env.KNOWLEDGE_BASE_ID\<close>.\<close>

record RetrieveInput =
  knowledgeBaseId :: "string option"
  retrievalQuery_text :: jsval
  numberOfResults :: nat

text \<open>
  The input of the \<open>InvokeModelCommand\<close>. Its body is passed through \<open>JSON.stringify\<close>;
  the model keeps the object that is serialised.
\<close>

record message =
  msg_role :: string
  msg_content :: string

record InvokeBody =
  anthropic_version :: string
  max_tokens :: nat
  temperature :: rat
  system :: string
  messages :: "message list"

record InvokeInput =
  inv_modelId :: jsval
  contentType :: string
  accept :: string
  inv_body :: InvokeBody

datatype sdk_call = RetrieveCommand RetrieveInput | InvokeModelCommand InvokeInput

text \<open>The inputs of the retrieval commands among the commands sent.\<close>

fun retrieve_inputs :: "sdk_call list \<Rightarrow> RetrieveInput list" where
  "retrieve_inputs [] = []"
| "retrieve_inputs (RetrieveCommand i # cs) = i # retrieve_inputs cs"
| "retrieve_inputs (InvokeModelCommand i # cs) = retrieve_inputs cs"

text \<open>
  \<open>event.body\<close> after the JSON body parser. \<open>conversationHistory\<close> is \<open>None\<close> when the
  field is missing, \<open>null\<close> or another falsy value (the handler only tests it with \<open>&&\<close>),
  and \<open>Some\<close> of the entries when it is an array, as the wire contract declares it and as the
  gateway forwards it.
\<close>

record event_body =
  question :: jsval
  requestSessionId :: jsval
  modelId :: jsval
  conversationHistory :: "jsval list option"

text \<open>
  The handler's result. \<open>body\<close> is the object given to \<open>JSON.stringify\<close>: a field that is
  \<open>JUndefined\<close> is left out of the JSON text.
\<close>

record result_body =
  response :: string
  citation :: jsval
  sessionId :: jsval

record lambda_result =
  statusCode :: nat
  body :: result_body
  headers :: "(string \<times> string) list"

definition makeResults :: "nat \<Rightarrow> string \<Rightarrow> jsval \<Rightarrow> jsval \<Rightarrow> lambda_result" where
  "makeResults statusCode' responseText citationText responseSessionId =
     \<lparr> statusCode = statusCode',
       body = \<lparr> response = responseText, citation = citationText, sessionId = responseSessionId \<rparr>,
       headers = [(''Access-Control-Allow-Origin'', ''*'')] \<rparr>"

text \<open>Step 2: the context block, \<open>[Source i]: text\<close> joined by blank lines.\<close>

fun source_blocks :: "nat \<Rightarrow> RetrievalResult list \<Rightarrow> string list" where
  "source_blocks idx [] = []"
| "source_blocks idx (result # rest) =
     (''[Source '' @ decimal (idx + 1) @ '']: '' @
        (case content_text result of None \<Rightarrow> [] | Some t \<Rightarrow> t))
     # source_blocks (idx + 1) rest"

definition build_context :: "RetrievalResult list \<Rightarrow> string" where
  "build_context results = join ''\<newline>\<newline>'' (source_blocks 0 results)"

text \<open>Step 2: the citation, from the first result only.\<close>

fun opt_str :: "string option \<Rightarrow> jsval" where
  "opt_str None = JUndefined"
| "opt_str (Some u) = JStr u"

definition extract_citation :: "RetrievalResult \<Rightarrow> jsval" where
  "extract_citation firstResult =
     (case location firstResult of
        None \<Rightarrow> JNull
      | Some loc \<Rightarrow>
          if loc_type loc = ''S3'' then opt_str (s3Location_uri loc)
          else if loc_type loc = ''WEB'' then opt_str (webLocation_url loc)
          else JNull)"

text \<open>Step 3: the conversation history, one labelled line per message.\<close>

definition render_message :: "jsval \<Rightarrow> js_error + string" where
  "render_message msg =
     (case js_prop msg ''role'' of
        Inl e \<Rightarrow> Inl e
      | Inr r \<Rightarrow>
          (case js_prop msg ''content'' of
             Inl e \<Rightarrow> Inl e
           | Inr c \<Rightarrow>
               (case js_to_string c of
                  Inl e \<Rightarrow> Inl e
                | Inr rendered \<Rightarrow>
                    Inr (''['' @ (if r = JStr ''customer'' then ''Customer'' else ''CS Rep'') @ '']: ''
                         @ rendered))))"

fun render_messages :: "jsval list \<Rightarrow> js_error + string list" where
  "render_messages [] = Inr []"
| "render_messages (msg # rest) =
     (case render_message msg of
        Inl e \<Rightarrow> Inl e
      | Inr l \<Rightarrow> (case render_messages rest of Inl e \<Rightarrow> Inl e | Inr ls \<Rightarrow> Inr (l # ls)))"

text \<open>The test \<open>conversationHistory && conversationHistory.length > 0\<close>.\<close>

definition has_history :: "jsval list option \<Rightarrow> bool" where
  "has_history h = (case h of None \<Rightarrow> False | Some msgs \<Rightarrow> length msgs > 0)"

definition conversationHistorySection :: "jsval list option \<Rightarrow> js_error + string" where
  "conversationHistorySection h =
     (case h of
        None \<Rightarrow> Inr []
      | Some msgs \<Rightarrow>
          if length msgs > 0 then
            (case render_messages msgs of
               Inl e \<Rightarrow> Inl e
             | Inr ls \<Rightarrow>
                 Inr (''<conversation_history>\<newline>'' @ join ''\<newline>\<newline>'' ls @
                      ''\<newline></conversation_history>\<newline>\<newline>''))
          else Inr [])"

text \<open>
  The user turn. Of the values it interpolates only the question can be other than a
  string, so only its conversion can throw.
\<close>

definition userPrompt :: "string \<Rightarrow> string \<Rightarrow> jsval \<Rightarrow> jsval list option \<Rightarrow> js_error + string" where
  "userPrompt section context q h =
     (case js_to_string q of
        Inl e \<Rightarrow> Inl e
      | Inr inquiry \<Rightarrow>
          Inr (if context \<noteq> [] then
                 section @ ''<company_knowledge>\<newline>'' @ context @ ''\<newline></company_knowledge>\<newline>\<newline>'' @
                 ''<customer_inquiry>\<newline>'' @ inquiry @ ''\<newline></customer_inquiry>\<newline>\<newline>'' @
                 ''Draft an email reply to answer the customer's inquiry using the company knowledge provided above.'' @
                 (if has_history h then '' Consider the conversation history to maintain context and continuity.''
                  else [])
               else
                 section @ ''<customer_inquiry>\<newline>'' @ inquiry @ ''\<newline></customer_inquiry>\<newline>\<newline>'' @
                 ''The company knowledge base does not contain information relevant to this inquiry. Draft an appropriate email reply.'' @
                 (if has_history h then '' Consider the conversation history to maintain context.'' else [])))"

text \<open>Step 5: \<open>responseBody.content[0].text\<close>.\<close>

definition generatedText :: "jsval \<Rightarrow> js_error + jsval" where
  "generatedText responseBody =
     (case js_prop responseBody ''content'' of
        Inl e \<Rightarrow> Inl e
      | Inr c \<Rightarrow> (case js_index0 c of Inl e \<Rightarrow> Inl e | Inr b \<Rightarrow> js_prop b ''text''))"

text \<open>The \<open>catch\<close> block of the handler.\<close>

definition on_error :: "js_error \<Rightarrow> lambda_result" where
  "on_error err = makeResults 500 (''Server side error: '' @ err_message err) JNull JNull"

text \<open>Step 1: the retrieval request, with the question as it arrived and a fixed top-K.\<close>

definition retrieveInput :: "string option \<Rightarrow> jsval \<Rightarrow> RetrieveInput" where
  "retrieveInput KNOWLEDGE_BASE_ID q =
     \<lparr> knowledgeBaseId = KNOWLEDGE_BASE_ID, retrievalQuery_text = q, numberOfResults = 5 \<rparr>"

text \<open>
  Step 2: \<open>context\<close> and \<open>citationUrl\<close> start as \<open>""\<close> and \<open>null\<close> and are set only when
  \<open>retrievalResults\<close> is there and not empty.
\<close>

definition context_of :: "RetrieveResponse \<Rightarrow> string" where
  "context_of retrieveResponse =
     (case retrievalResults retrieveResponse of
        Some (firstResult # rest) \<Rightarrow> build_context (firstResult # rest)
      | _ \<Rightarrow> [])"

definition citationUrl_of :: "RetrieveResponse \<Rightarrow> jsval" where
  "citationUrl_of retrieveResponse =
     (case retrievalResults retrieveResponse of
        Some (firstResult # rest) \<Rightarrow> extract_citation firstResult
      | _ \<Rightarrow> JNull)"

text \<open>Step 4: the model request, its last turn the pre-seeded greeting.\<close>

definition invokeInput :: "jsval \<Rightarrow> string \<Rightarrow> InvokeInput" where
  "invokeInput selectedModelId prompt =
     \<lparr> inv_modelId = selectedModelId,
       contentType = ''application/json'',
       accept = ''application/json'',
       inv_body =
         \<lparr> anthropic_version = ''bedrock-2023-05-31'',
           max_tokens = 1000,
           temperature = 7 / 10,
           system = SYSTEM_PROMPT,
           messages =
             [\<lparr> msg_role = ''user'', msg_content = prompt \<rparr>,
              \<lparr> msg_role = ''assistant'', msg_content = ''Hi {{CUSTOMER_NAME}},'' \<rparr>] \<rparr> \<rparr>"

text \<open>
  The handler. The two external collaborators are parameters: \<open>retrieve\<close> is
  \<open>agentClient.send\<close> on a \<open>RetrieveCommand\<close>; \<open>invoke\<close> is \<open>bedrockClient.send\<close> on an
  \<open>InvokeModelCommand\<close> followed by decoding and \<open>JSON.parse\<close> of the reply (an exception
  of any of the three is \<open>Inl\<close>). The result comes with the commands that were sent, in
  order.
\<close>

definition handler ::
  "string option \<Rightarrow> (RetrieveInput \<Rightarrow> js_error + RetrieveResponse) \<Rightarrow>
   (InvokeInput \<Rightarrow> js_error + jsval) \<Rightarrow> event_body \<Rightarrow> sdk_call list \<times> lambda_result" where
  "handler KNOWLEDGE_BASE_ID retrieve invoke ev =
     (let selectedModelId = js_or (modelId ev) (JStr ''anthropic.claude-3-haiku-20240307-v1:0'');
          retrieveCommand = retrieveInput KNOWLEDGE_BASE_ID (question ev)
      in case retrieve retrieveCommand of
           Inl err \<Rightarrow> ([RetrieveCommand retrieveCommand], on_error err)
         | Inr retrieveResponse \<Rightarrow>
            (let context = context_of retrieveResponse;
                 citationUrl = citationUrl_of retrieveResponse
             in case conversationHistorySection (conversationHistory ev) of
                  Inl err \<Rightarrow> ([RetrieveCommand retrieveCommand], on_error err)
                | Inr section \<Rightarrow>
                   (case userPrompt section context (question ev) (conversationHistory ev) of
                      Inl err \<Rightarrow> ([RetrieveCommand retrieveCommand], on_error err)
                    | Inr prompt \<Rightarrow>
                       (let invokeCommand = invokeInput selectedModelId prompt;
                            sent = [RetrieveCommand retrieveCommand, InvokeModelCommand invokeCommand]
                        in case invoke invokeCommand of
                             Inl err \<Rightarrow> (sent, on_error err)
                           | Inr responseBody \<Rightarrow>
                              (case generatedText responseBody of
                                 Inl err \<Rightarrow> (sent, on_error err)
                               | Inr t \<Rightarrow>
                                  (case js_to_string t of
                                     Inl err \<Rightarrow> (sent, on_error err)
                                   | Inr continuation \<Rightarrow>
                                      (sent,
                                       makeResults 200
                                         (''Hi {{CUSTOMER_NAME}},\<newline>\<newline>'' @ continuation)
                                         citationUrl (requestSessionId ev))))))))"

section \<open>The gateway\<close>

text \<open>
  \<open>req.body\<close> of \<open>POST /ai-draft\<close>, and the \<open>QueryRequest\<close> the route builds from it: the
  four fields that are read, each any JSON value or missing.
\<close>

record QueryRequest =
  req_question :: jsval
  req_requestSessionId :: jsval
  req_modelId :: jsval
  req_conversationHistory :: jsval

record QueryResponse =
  qr_response :: jsval
  qr_citation :: jsval
  qr_sessionId :: jsval

text \<open>
  What \<open>fetch\<close> gives: it rejects, or it resolves to a reply of which the client reads the
  status, the text (\<open>response.text()\<close>) or the parsed JSON (\<open>response.json()\<close>); reading
  either may itself reject.
\<close>

record http_reply =
  reply_status :: nat
  reply_text :: "js_error + string"
  reply_json :: "js_error + jsval"

datatype fetch_outcome = Rejected js_error | Replied http_reply

definition reply_ok :: "http_reply \<Rightarrow> bool" where
  "reply_ok r = (200 \<le> reply_status r \<and> reply_status r \<le> 299)"

text \<open>\<open>BedrockApiClient.invokeQuery\<close>; its \<open>catch\<close> logs and rethrows.\<close>

definition invokeQuery :: "(QueryRequest \<Rightarrow> fetch_outcome) \<Rightarrow> QueryRequest \<Rightarrow> js_error + QueryResponse" where
  "invokeQuery fetch request =
     (case fetch request of
        Rejected e \<Rightarrow> Inl e
      | Replied r \<Rightarrow>
          if \<not> reply_ok r then
            (case reply_text r of
               Inl e \<Rightarrow> Inl e
             | Inr errorText \<Rightarrow>
                 Inl (Error (''API Gateway returned status '' @ decimal (reply_status r) @ '': ''
                             @ errorText)))
          else
            (case reply_json r of
               Inl e \<Rightarrow> Inl e
             | Inr data \<Rightarrow>
                 (case js_prop data ''response'' of
                    Inl e \<Rightarrow> Inl e
                  | Inr resp \<Rightarrow>
                      (case js_prop data ''citation'' of
                         Inl e \<Rightarrow> Inl e
                       | Inr cit \<Rightarrow>
                           (case js_prop data ''sessionId'' of
                              Inl e \<Rightarrow> Inl e
                            | Inr sid \<Rightarrow>
                                Inr \<lparr> qr_response = resp,
                                      qr_citation = js_or cit JNull,
                                      qr_sessionId = js_or sid JNull \<rparr>)))))"

text \<open>What the route sends back: a status and a JSON body of one of two shapes.\<close>

datatype res_json =
    ErrorBody (eb_statusCode: nat) (eb_error: string) (eb_message: string)
  | DraftBody (db_response: jsval) (db_citation: jsval) (db_sessionId: jsval)

record http_response =
  status :: nat
  json :: res_json

definition bad_request :: "string \<Rightarrow> http_response" where
  "bad_request msg = \<lparr> status = 400, json = ErrorBody 400 ''Bad Request'' msg \<rparr>"

definition validModels :: "string list" where
  "validModels =
     [''anthropic.claude-3-haiku-20240307-v1:0'',
      ''anthropic.claude-3-sonnet-20240229-v1:0'',
      ''anthropic.claude-3-opus-20240229-v1:0'']"

text \<open>
  The loop over \<open>conversationHistory\<close>: \<open>Inr (Some res)\<close> is an early \<open>return res\<close>,
  \<open>Inr None\<close> is the loop running to its end, \<open>Inl\<close> is an exception.
\<close>

fun check_messages :: "jsval list \<Rightarrow> js_error + http_response option" where
  "check_messages [] = Inr None"
| "check_messages (msg # rest) =
     (case js_prop msg ''role'' of
        Inl e \<Rightarrow> Inl e
      | Inr role \<Rightarrow>
          if \<not> js_truthy role then
            Inr (Some (bad_request ''Each conversation message must have role and content''))
          else
            (case js_prop msg ''content'' of
               Inl e \<Rightarrow> Inl e
             | Inr content \<Rightarrow>
                 if \<not> js_truthy content then
                   Inr (Some (bad_request ''Each conversation message must have role and content''))
                 else if role \<notin> set [JStr ''customer'', JStr ''agent''] then
                   Inr (Some (bad_request ''Message role must be either \"customer\" or \"agent\"''))
                 else check_messages rest))"

text \<open>The \<open>catch\<close> block of the route.\<close>

definition on_catch :: "js_error \<Rightarrow> http_response" where
  "on_catch error =
     (if includes_str (err_message error) ''API Gateway'' then
        \<lparr> status = 503,
          json = ErrorBody 503 ''Service Unavailable'' ''Bedrock Knowledge Base temporarily unavailable'' \<rparr>
      else
        \<lparr> status = 500,
          json = ErrorBody 500 ''Internal Server Error'' ''Error invoking Bedrock model'' \<rparr>)"

text \<open>The \<open>queryRequest\<close> that the route builds once validation has passed.\<close>

definition queryRequest :: "QueryRequest \<Rightarrow> QueryRequest" where
  "queryRequest req_body =
     \<lparr> req_question = JStr (js_trim (str_of (req_question req_body))),
       req_requestSessionId = req_requestSessionId req_body,
       req_modelId = req_modelId req_body,
       req_conversationHistory = req_conversationHistory req_body \<rparr>"

text \<open>
  The route \<open>POST /ai-draft\<close>. The result comes with the requests that were forwarded
  through \<open>apiClient.invokeQuery\<close>, in order.
\<close>

definition ai_draft :: "(QueryRequest \<Rightarrow> fetch_outcome) \<Rightarrow> QueryRequest \<Rightarrow> QueryRequest list \<times> http_response" where
  "ai_draft fetch req_body =
     (let question = req_question req_body;
          modelId = req_modelId req_body;
          conversationHistory = req_conversationHistory req_body
      in
      if \<not> js_truthy question \<or> \<not> typeof_string question \<or> length (js_trim (str_of question)) = 0 then
        ([], bad_request ''Missing required parameter: question'')
      else if js_truthy modelId \<and> modelId \<notin> set (map JStr validModels) then
        ([], bad_request (''Invalid modelId. Must be one of: '' @ join '', '' validModels))
      else if js_truthy conversationHistory \<and> \<not> isArray conversationHistory then
        ([], bad_request ''conversationHistory must be an array'')
      else
        (case (if js_truthy conversationHistory then check_messages (elements conversationHistory)
               else Inr None) of
           Inl error \<Rightarrow> ([], on_catch error)
         | Inr (Some res) \<Rightarrow> ([], res)
         | Inr None \<Rightarrow>
             (case invokeQuery fetch (queryRequest req_body) of
                Inl error \<Rightarrow> ([queryRequest req_body], on_catch error)
              | Inr result \<Rightarrow>
                  ([queryRequest req_body],
                   \<lparr> status = 200,
                     json = DraftBody (qr_response result) (qr_citation result)
                              (qr_sessionId result) \<rparr>))))"


section \<open>The deployment between gateway and orchestrator\<close>

text \<open>
  The stack puts the handler behind \<open>apigw.LambdaIntegration\<close> (a proxy integration): the
  forwarded JSON reaches the handler as \<open>event.body\<close>, and the handler's \<open>statusCode\<close> and
  \<open>body\<close> become the HTTP reply. \<open>to_event_body\<close> is applied to forwarded requests only,
  whose \<open>conversationHistory\<close> is falsy or an array.
\<close>

definition to_event_body :: "QueryRequest \<Rightarrow> event_body" where
  "to_event_body request =
     \<lparr> question = req_question request,
       requestSessionId = req_requestSessionId request,
       modelId = req_modelId request,
       conversationHistory =
         (case req_conversationHistory request of JArr msgs \<Rightarrow> Some msgs | _ \<Rightarrow> None) \<rparr>"

text \<open>The JSON value that the text \<open>JSON.stringify(body)\<close> denotes.\<close>

definition body_json :: "result_body \<Rightarrow> jsval" where
  "body_json b =
     JObj (filter (\<lambda>(k, v). v \<noteq> JUndefined)
             [(''response'', JStr (response b)), (''citation'', citation b),
              (''sessionId'', sessionId b)])"

definition api_gateway ::
  "(result_body \<Rightarrow> string) \<Rightarrow> (event_body \<Rightarrow> sdk_call list \<times> lambda_result) \<Rightarrow>
   QueryRequest \<Rightarrow> fetch_outcome" where
  "api_gateway stringify lambda request =
     (let r = snd (lambda (to_event_body request))
      in Replied \<lparr> reply_status = statusCode r,
                   reply_text = Inr (stringify (body r)),
                   reply_json = Inr (body_json (body r)) \<rparr>)"


section \<open>Sample inputs\<close>

text \<open>Concrete replies, passages and requests at which the theorems below are evaluated.\<close>

definition ex_invoke :: "InvokeInput \<Rightarrow> js_error + jsval" where
  "ex_invoke i =
     Inr (JObj [(''content'', JArr [JObj [(''type'', JStr ''text''), (''text'', JStr ''Thanks!'')]])])"

definition ex_event :: event_body where
  "ex_event = \<lparr> question = JStr ''Q'', requestSessionId = JStr ''s-1'', modelId = JUndefined,
                conversationHistory = None \<rparr>"

definition ex_passage :: RetrievalResult where
  "ex_passage =
     \<lparr> content_text = Some ''Silver bars ship in 2 days.'',
       location = Some \<lparr> loc_type = ''S3'', s3Location_uri = Some ''s3://bucket/docs/guide.pdf'',
                         webLocation_url = None \<rparr> \<rparr>"

definition ex_passage_web :: RetrievalResult where
  "ex_passage_web =
     \<lparr> content_text = Some ''Orders can be placed online.'',
       location = Some \<lparr> loc_type = ''WEB'', s3Location_uri = None,
                         webLocation_url = Some ''https://example.com/faq'' \<rparr> \<rparr>"

definition ex_retrieve :: "RetrievalResult list \<Rightarrow> RetrieveInput \<Rightarrow> js_error + RetrieveResponse" where
  "ex_retrieve rs i = Inr \<lparr> retrievalResults = Some rs \<rparr>"

definition ex_req :: QueryRequest where
  "ex_req = \<lparr> req_question = JStr ''How do I reset my password?'', req_requestSessionId = JUndefined,
              req_modelId = JUndefined, req_conversationHistory = JUndefined \<rparr>"

definition ex_req_blank :: QueryRequest where
  "ex_req_blank = \<lparr> req_question = JStr [CHR '' '', CHR 0x09, CHR 0x0A], req_requestSessionId = JStr ''s-1'',
              req_modelId = JUndefined, req_conversationHistory = JUndefined \<rparr>"

definition ex_fetch_rejects :: "QueryRequest \<Rightarrow> fetch_outcome" where
  "ex_fetch_rejects request = Rejected (Error ''fetch failed'')"

definition ex_fetch_500 :: "QueryRequest \<Rightarrow> fetch_outcome" where
  "ex_fetch_500 request =
     Replied \<lparr> reply_status = 500, reply_text = Inr ''upstream failure'', reply_json = Inr JNull \<rparr>"

definition ex_req_empty_content :: QueryRequest where
  "ex_req_empty_content =
     \<lparr> req_question = JStr ''Where is my order?'', req_requestSessionId = JUndefined,
       req_modelId = JStr ''anthropic.claude-3-haiku-20240307-v1:0'',
       req_conversationHistory =
         JArr [JObj [(''role'', JStr ''customer''), (''content'', JStr ''I placed an order last week'')],
               JObj [(''role'', JStr ''agent''), (''content'', JStr [])]] \<rparr>"

definition ex_retrieve_throws :: "RetrieveInput \<Rightarrow> js_error + RetrieveResponse" where
  "ex_retrieve_throws i = Inl (Error ''connect ECONNREFUSED 10.0.0.7:443'')"

definition ex_invoke_throws :: "InvokeInput \<Rightarrow> js_error + jsval" where
  "ex_invoke_throws i = Inl (Error ''ThrottlingException: Too many requests'')"

definition ex_retrieve_missing :: "RetrieveInput \<Rightarrow> js_error + RetrieveResponse" where
  "ex_retrieve_missing i = Inr \<lparr> retrievalResults = None \<rparr>"

definition ex_stringify :: "result_body \<Rightarrow> string" where
  "ex_stringify b = ''{}''"

definition ex_req_empty_session :: QueryRequest where
  "ex_req_empty_session =
     \<lparr> req_question = JStr ''How do I reset my password?'', req_requestSessionId = JStr [],
       req_modelId = JUndefined, req_conversationHistory = JUndefined \<rparr>"

definition ex_req_session :: QueryRequest where
  "ex_req_session =
     \<lparr> req_question = JStr ''How do I reset my password?'', req_requestSessionId = JStr ''session-123-abc'',
       req_modelId = JNull, req_conversationHistory = JArr [] \<rparr>"

definition ex_req_padded :: QueryRequest where
  "ex_req_padded =
     \<lparr> req_question = JStr '' hi '', req_requestSessionId = JUndefined,
       req_modelId = JUndefined, req_conversationHistory = JUndefined \<rparr>"

definition ex_req_bot_before_empty :: QueryRequest where
  "ex_req_bot_before_empty =
     \<lparr> req_question = JStr ''Where is my order?'', req_requestSessionId = JUndefined,
       req_modelId = JUndefined,
       req_conversationHistory =
         JArr [JObj [(''role'', JStr ''bot''), (''content'', JStr ''hi'')],
               JObj [(''role'', JStr ''agent''), (''content'', JStr [])]] \<rparr>"

definition ex_req_null_before_empty :: QueryRequest where
  "ex_req_null_before_empty =
     \<lparr> req_question = JStr ''Where is my order?'', req_requestSessionId = JUndefined,
       req_modelId = JUndefined,
       req_conversationHistory =
         JArr [JNull, JObj [(''role'', JStr ''agent''), (''content'', JStr [])]] \<rparr>"

section \<open>Facts about the model\<close>

lemmas handler_simps = handler_def Let_def makeResults_def on_error_def

lemmas step_simps = retrieveInput_def context_of_def citationUrl_of_def invokeInput_def conversationHistorySection_def
  generatedText_def userPrompt_def has_history_def extract_citation_def build_context_def

lemma handler_retrieve_throws:
  "retrieve (retrieveInput kb (question ev)) = Inl err \<Longrightarrow>
   handler kb retrieve invoke ev = ([RetrieveCommand (retrieveInput kb (question ev))], on_error err)"
  by (simp add: handler_def Let_def)

lemma handler_invoked:
  assumes "retrieve (retrieveInput kb (question ev)) = Inr rr"
    and "conversationHistorySection (conversationHistory ev) = Inr sec"
    and "userPrompt sec (context_of rr) (question ev) (conversationHistory ev) = Inr p"
  shows "fst (handler kb retrieve invoke ev) =
     [RetrieveCommand (retrieveInput kb (question ev)),
      InvokeModelCommand
        (invokeInput (js_or (modelId ev) (JStr ''anthropic.claude-3-haiku-20240307-v1:0'')) p)]"
  using assms by (simp add: handler_def Let_def split: sum.splits)

lemma handler_calls:
  "fst (handler kb retrieve invoke ev) = [RetrieveCommand (retrieveInput kb (question ev))] \<or>
   (\<exists>rr sec p. retrieve (retrieveInput kb (question ev)) = Inr rr \<and>
      conversationHistorySection (conversationHistory ev) = Inr sec \<and>
      userPrompt sec (context_of rr) (question ev) (conversationHistory ev) = Inr p \<and>
      fst (handler kb retrieve invoke ev) =
        [RetrieveCommand (retrieveInput kb (question ev)),
         InvokeModelCommand
           (invokeInput (js_or (modelId ev) (JStr ''anthropic.claude-3-haiku-20240307-v1:0'')) p)])"
  by (simp add: handler_def Let_def split: sum.splits)

lemma handler_success:
  assumes "statusCode (snd (handler kb retrieve invoke ev)) = 200"
  shows "\<exists>rr sec p rb t s.
     retrieve (retrieveInput kb (question ev)) = Inr rr \<and>
     conversationHistorySection (conversationHistory ev) = Inr sec \<and>
     userPrompt sec (context_of rr) (question ev) (conversationHistory ev) = Inr p \<and>
     invoke (invokeInput (js_or (modelId ev) (JStr ''anthropic.claude-3-haiku-20240307-v1:0'')) p)
       = Inr rb \<and>
     generatedText rb = Inr t \<and> js_to_string t = Inr s \<and>
     snd (handler kb retrieve invoke ev) =
       makeResults 200 (''Hi {{CUSTOMER_NAME}},\<newline>\<newline>'' @ s)
         (citationUrl_of rr) (requestSessionId ev)"
  using assms by (auto simp: handler_def Let_def on_error_def makeResults_def split: sum.splits)

lemma handler_replied:
  assumes "InvokeModelCommand i \<in> set (fst (handler kb retrieve invoke ev))"
    and "invoke i = Inr rb" and "generatedText rb = Inr t" and "js_to_string t = Inr s"
  shows "\<exists>rr. retrieve (retrieveInput kb (question ev)) = Inr rr \<and>
           snd (handler kb retrieve invoke ev) =
             makeResults 200 (''Hi {{CUSTOMER_NAME}},\<newline>\<newline>'' @ s)
               (citationUrl_of rr) (requestSessionId ev)"
  using assms by (auto simp: handler_def Let_def split: sum.splits)

lemma generatedText_chain:
  "generatedText rb = Inr t \<longleftrightarrow>
     (\<exists>c b. js_prop rb ''content'' = Inr c \<and> js_index0 c = Inr b \<and> js_prop b ''text'' = Inr t)"
  by (auto simp: generatedText_def split: sum.splits)

lemma generatedText_text_block:
  "map_of fs ''content'' = Some (JArr (JObj bs # rest)) \<Longrightarrow> map_of bs ''text'' = Some v \<Longrightarrow>
   generatedText (JObj fs) = Inr v"
  by (simp add: generatedText_def)

lemma userPrompt_rendered:
  "js_to_string q = Inr qs \<Longrightarrow> \<exists>p. userPrompt sec ctx q h = Inr p"
  by (simp add: userPrompt_def)

lemma handler_failure:
  "statusCode (snd (handler kb retrieve invoke ev)) = 200 \<or>
   (\<exists>err. snd (handler kb retrieve invoke ev) = on_error err)"
  by (auto simp: handler_def Let_def makeResults_def split: sum.splits)

lemma starts_with_append: "starts_with needle (needle @ ys)"
  by (induction needle) auto

lemma includes_str_append: "includes_str (xs @ needle @ ys) needle"
proof (induction xs)
  case Nil
  show ?case
  proof (cases "needle @ ys")
    case Nil
    then show ?thesis by simp
  next
    case (Cons c cs)
    then show ?thesis using starts_with_append [of needle ys] by simp
  qed
next
  case (Cons x xs)
  then show ?case by simp
qed

lemma userPrompt_no_context:
  assumes "userPrompt sec [] q h = Inr p"
  shows "includes_str p
           ''The company knowledge base does not contain information relevant to this inquiry.''"
proof -
  from assms obtain qs where
    "p = (sec @ ''<customer_inquiry>\<newline>'' @ qs @ ''\<newline></customer_inquiry>\<newline>\<newline>'') @
        ''The company knowledge base does not contain information relevant to this inquiry.'' @
        ('' Draft an appropriate email reply.'' @
         (if has_history h then '' Consider the conversation history to maintain context.'' else []))"
    by (auto simp: userPrompt_def split: sum.splits)
  then show ?thesis using includes_str_append by metis
qed

lemma ai_draft_fst: "fst (ai_draft fetch req) = [] \<or> fst (ai_draft fetch req) = [queryRequest req]"
  by (simp add: ai_draft_def Let_def split: sum.splits option.splits)

lemma ai_draft_forwarded:
  assumes "fst (ai_draft fetch req) = [q]"
  shows "q = queryRequest req \<and>
         snd (ai_draft fetch req) =
           (case invokeQuery fetch q of
              Inl error \<Rightarrow> on_catch error
            | Inr result \<Rightarrow>
                \<lparr> status = 200,
                  json = DraftBody (qr_response result) (qr_citation result) (qr_sessionId result) \<rparr>)"
  using assms by (auto simp: ai_draft_def Let_def split: sum.splits option.splits if_splits)

lemma ai_draft_accepts:
  assumes "js_truthy (req_question req)" "typeof_string (req_question req)"
    and "js_trim (str_of (req_question req)) \<noteq> []"
    and "\<not> js_truthy (req_modelId req) \<or> req_modelId req \<in> set (map JStr validModels)"
    and "\<not> js_truthy (req_conversationHistory req) \<or>
         (isArray (req_conversationHistory req) \<and>
          check_messages (elements (req_conversationHistory req)) = Inr None)"
  shows "fst (ai_draft fetch req) = [queryRequest req]"
  using assms by (auto simp: ai_draft_def Let_def split: sum.splits option.splits)

lemma js_trim_blank: "(\<forall>c \<in> set s. is_js_whitespace c) \<Longrightarrow> js_trim s = []"
proof -
  assume "\<forall>c \<in> set s. is_js_whitespace c"
  then have d: "dropWhile is_js_whitespace s = []" by (induction s) auto
  show ?thesis unfolding js_trim_def d by simp
qed

lemma check_messages_accepted:
  "check_messages [e] = Inr None \<Longrightarrow> check_messages (e # rest) = check_messages rest"
  by (auto split: sum.splits if_splits)

lemma check_messages_append:
  "\<forall>e \<in> set pre. check_messages [e] = Inr None \<Longrightarrow> check_messages (pre @ rest) = check_messages rest"
proof (induction pre)
  case Nil
  show ?case by simp
next
  case (Cons e pre)
  then have "check_messages (e # (pre @ rest)) = check_messages (pre @ rest)"
    using check_messages_accepted [of e "pre @ rest"] by simp
  with Cons show ?case by simp
qed

lemma js_prop_total: "js_prop m a = Inr x \<Longrightarrow> \<exists>y. js_prop m b = Inr y"
  by (cases m) auto

lemma check_messages_empty_field:
  assumes "js_prop m ''role'' = Inr (JStr []) \<or> js_prop m ''content'' = Inr (JStr [])"
  shows "check_messages (m # rest) =
           Inr (Some (bad_request ''Each conversation message must have role and content''))"
proof -
  from assms obtain r c where r: "js_prop m ''role'' = Inr r" and c: "js_prop m ''content'' = Inr c"
    using js_prop_total by blast
  from assms r c have "\<not> js_truthy r \<or> \<not> js_truthy c" by auto
  with r c show ?thesis by auto
qed

lemma check_messages_objects:
  assumes "\<forall>e \<in> set pre. e \<noteq> JNull \<and> e \<noteq> JUndefined"
    and "js_prop m ''role'' = Inr (JStr []) \<or> js_prop m ''content'' = Inr (JStr [])"
  shows "\<exists>msg. check_messages (pre @ m # post) = Inr (Some (bad_request msg))"
  using assms(1)
proof (induction pre)
  case Nil
  have "check_messages (m # post) =
          Inr (Some (bad_request ''Each conversation message must have role and content''))"
    by (rule check_messages_empty_field [OF assms(2)])
  then show ?case by (metis append_Nil)
next
  case (Cons e pre)
  then obtain msg where ih: "check_messages (pre @ m # post) = Inr (Some (bad_request msg))"
    by auto
  from Cons.prems obtain r c where "js_prop e ''role'' = Inr r" "js_prop e ''content'' = Inr c"
    by (cases e) auto
  with ih show ?case by auto
qed

lemma includes_api_gateway:
  "includes_str (''API Gateway returned status '' @ rest) ''API Gateway''"
  using includes_str_append [of "[]" "''API Gateway''" "'' returned status '' @ rest"] by simp

lemma check_messages_400: "check_messages xs = Inr (Some res) \<Longrightarrow> status res = 400"
proof (induction xs)
  case Nil
  then show ?case by simp
next
  case (Cons m xs)
  then show ?case by (auto simp: bad_request_def split: sum.splits if_splits)
qed

lemma check_messages_bodies:
  "check_messages xs = Inr (Some res) \<Longrightarrow>
     res = bad_request ''Each conversation message must have role and content'' \<or>
     res = bad_request ''Message role must be either \"customer\" or \"agent\"''"
proof (induction xs)
  case Nil
  then show ?case by simp
next
  case (Cons m xs)
  then show ?case by (auto split: sum.splits if_splits)
qed

lemma ai_draft_model_not_refused:
  assumes "\<not> js_truthy (req_modelId req)"
  shows "json (snd (ai_draft fetch req)) \<noteq>
           ErrorBody 400 ''Bad Request''
             ''Invalid modelId. Must be one of: anthropic.claude-3-haiku-20240307-v1:0, anthropic.claude-3-sonnet-20240229-v1:0, anthropic.claude-3-opus-20240229-v1:0''"
proof -
  have c: "json res \<noteq>
           ErrorBody 400 ''Bad Request''
             ''Invalid modelId. Must be one of: anthropic.claude-3-haiku-20240307-v1:0, anthropic.claude-3-sonnet-20240229-v1:0, anthropic.claude-3-opus-20240229-v1:0''"
    if "check_messages xs = Inr (Some res)" for xs res
    using check_messages_bodies [OF that] by (auto simp: bad_request_def)
  show ?thesis
    using assms c [of "elements (req_conversationHistory req)"]
    by (auto simp: ai_draft_def Let_def bad_request_def on_catch_def
             split: sum.splits option.splits)
qed

lemma on_catch_status: "status (on_catch e) \<noteq> 200"
  by (simp add: on_catch_def)

lemma ai_draft_200:
  assumes "status (snd (ai_draft fetch req)) = 200"
  shows "\<exists>result. invokeQuery fetch (queryRequest req) = Inr result \<and>
           ai_draft fetch req =
             ([queryRequest req],
              \<lparr> status = 200,
                json = DraftBody (qr_response result) (qr_citation result) (qr_sessionId result) \<rparr>)"
proof -
  from ai_draft_fst [of fetch req] show ?thesis
  proof
    assume e: "fst (ai_draft fetch req) = []"
    have "status (snd (ai_draft fetch req)) \<noteq> 200"
      using e check_messages_400 [of "elements (req_conversationHistory req)"]
      by (auto simp: ai_draft_def Let_def bad_request_def on_catch_def
               split: sum.splits option.splits if_splits)
    with assms show ?thesis by simp
  next
    assume f: "fst (ai_draft fetch req) = [queryRequest req]"
    from ai_draft_forwarded [OF f] assms f show ?thesis
      by (cases "invokeQuery fetch (queryRequest req)")
         (auto simp: on_catch_status prod_eq_iff)
  qed
qed

lemma js_prop_body_json:
  "js_prop (body_json b) ''response'' = Inr (JStr (response b))"
  "js_prop (body_json b) ''citation'' = Inr (citation b)"
  "js_prop (body_json b) ''sessionId'' = Inr (sessionId b)"
  by (simp_all add: body_json_def)

lemma invokeQuery_api_gateway:
  assumes "invokeQuery (api_gateway stringify lambda) q = Inr result"
  shows "reply_ok \<lparr> reply_status = statusCode (snd (lambda (to_event_body q))),
                    reply_text = Inr (stringify (body (snd (lambda (to_event_body q))))),
                    reply_json = Inr (body_json (body (snd (lambda (to_event_body q))))) \<rparr> \<and>
         result = \<lparr> qr_response = JStr (response (body (snd (lambda (to_event_body q))))),
                    qr_citation = js_or (citation (body (snd (lambda (to_event_body q))))) JNull,
                    qr_sessionId = js_or (sessionId (body (snd (lambda (to_event_body q))))) JNull \<rparr>"
  using assms
  by (auto simp: invokeQuery_def api_gateway_def Let_def js_prop_body_json split: if_splits)

lemma handler_status:
  "statusCode (snd (handler kb retrieve invoke ev)) = 200 \<or>
   statusCode (snd (handler kb retrieve invoke ev)) = 500"
  using handler_failure [of kb retrieve invoke ev] by (auto simp: on_error_def makeResults_def)

lemma handler_retrieve_inputs:
  "retrieve_inputs (fst (handler kb retrieve invoke ev)) = [retrieveInput kb (question ev)]"
  using handler_calls [of kb retrieve invoke ev] by auto

section \<open>The claims\<close>

text \<open>
  C5. Every successful draft (status 200) has as its response text the literal greeting
  \<open>Hi {{CUSTOMER_NAME}},\<close>, a blank line, and then the text of the first content block of
  the model's reply, \<open>content[0].text\<close>, as a template literal renders it. Whenever the
  model call that was sent returns a reply whose first content block has a string as its
  text, the draft succeeds and the response is the greeting, a blank line and that very
  string: the text is a function of the reply alone.
\<close>

theorem response_text_is_greeting_then_continuation:
  "(statusCode (snd (handler kb retrieve invoke ev)) = 200 \<longrightarrow>
      (\<exists>i rb c b t s.
         fst (handler kb retrieve invoke ev) =
           [RetrieveCommand (retrieveInput kb (question ev)), InvokeModelCommand i] \<and>
         invoke i = Inr rb \<and>
         js_prop rb ''content'' = Inr c \<and> js_index0 c = Inr b \<and> js_prop b ''text'' = Inr t \<and>
         js_to_string t = Inr s \<and>
         response (body (snd (handler kb retrieve invoke ev))) =
           ''Hi {{CUSTOMER_NAME}},'' @ ''\<newline>\<newline>'' @ s)) \<and>
   (\<forall>i fs bs rest x.
      InvokeModelCommand i \<in> set (fst (handler kb retrieve invoke ev)) \<and>
      invoke i = Inr (JObj fs) \<and>
      map_of fs ''content'' = Some (JArr (JObj bs # rest)) \<and>
      map_of bs ''text'' = Some (JStr x) \<longrightarrow>
        statusCode (snd (handler kb retrieve invoke ev)) = 200 \<and>
        response (body (snd (handler kb retrieve invoke ev))) =
          ''Hi {{CUSTOMER_NAME}},'' @ ''\<newline>\<newline>'' @ x)"
proof -
  have a: "\<exists>i rb c b t s.
         fst (handler kb retrieve invoke ev) =
           [RetrieveCommand (retrieveInput kb (question ev)), InvokeModelCommand i] \<and>
         invoke i = Inr rb \<and>
         js_prop rb ''content'' = Inr c \<and> js_index0 c = Inr b \<and> js_prop b ''text'' = Inr t \<and>
         js_to_string t = Inr s \<and>
         response (body (snd (handler kb retrieve invoke ev))) =
           ''Hi {{CUSTOMER_NAME}},'' @ ''\<newline>\<newline>'' @ s"
    if ok: "statusCode (snd (handler kb retrieve invoke ev)) = 200"
  proof -
    from handler_success [OF ok] obtain rr sec p rb t s where
      r: "retrieve (retrieveInput kb (question ev)) = Inr rr" and
      h: "conversationHistorySection (conversationHistory ev) = Inr sec" and
      u: "userPrompt sec (context_of rr) (question ev) (conversationHistory ev) = Inr p" and
      i: "invoke (invokeInput (js_or (modelId ev) (JStr ''anthropic.claude-3-haiku-20240307-v1:0'')) p)
            = Inr rb" and
      g: "generatedText rb = Inr t" and
      js: "js_to_string t = Inr s" and
      res: "snd (handler kb retrieve invoke ev) =
         makeResults 200 (''Hi {{CUSTOMER_NAME}},\<newline>\<newline>'' @ s)
           (citationUrl_of rr) (requestSessionId ev)"
      by blast
    from g obtain c b where
      ch: "js_prop rb ''content'' = Inr c" "js_index0 c = Inr b" "js_prop b ''text'' = Inr t"
      unfolding generatedText_chain by blast
    from res have "response (body (snd (handler kb retrieve invoke ev))) =
               ''Hi {{CUSTOMER_NAME}},'' @ ''\<newline>\<newline>'' @ s"
      by (simp add: makeResults_def)
    with handler_invoked [where retrieve = retrieve and invoke = invoke, OF r h u] i ch js
    show ?thesis by blast
  qed
  have b: "statusCode (snd (handler kb retrieve invoke ev)) = 200 \<and>
        response (body (snd (handler kb retrieve invoke ev))) =
          ''Hi {{CUSTOMER_NAME}},'' @ ''\<newline>\<newline>'' @ x"
    if "InvokeModelCommand i \<in> set (fst (handler kb retrieve invoke ev))"
      and "invoke i = Inr (JObj fs)"
      and "map_of fs ''content'' = Some (JArr (JObj bs # rest))"
      and "map_of bs ''text'' = Some (JStr x)" for i fs bs rest x
  proof -
    have g: "generatedText (JObj fs) = Inr (JStr x)"
      using generatedText_text_block [OF that(3) that(4)] .
    have js: "js_to_string (JStr x) = Inr x" by simp
    from handler_replied [OF that(1) that(2) g js] show ?thesis
      by (auto simp: makeResults_def)
  qed
  from a b show ?thesis by blast
qed

theorem response_text_witness:
  "statusCode (snd (handler (Some ''KB'') (ex_retrieve []) ex_invoke ex_event)) = 200 \<and>
   response (body (snd (handler (Some ''KB'') (ex_retrieve []) ex_invoke ex_event))) =
     ''Hi {{CUSTOMER_NAME}},\<newline>\<newline>Thanks!''"
  using response_text_is_greeting_then_continuation
          [of "Some ''KB''" "ex_retrieve []" ex_invoke ex_event]
  by (simp add: handler_simps step_simps ex_retrieve_def ex_invoke_def ex_event_def)

text \<open>
  C2, as amended. When retrieval returns at least one passage and the draft succeeds, the
  citation of the response is the source location of the first passage, whatever further
  passages there are: the URI of its storage object when the location is of type \<open>S3\<close>,
  its URL when of type \<open>WEB\<close> (left out when that URI or URL is missing), and \<open>null\<close>
  when the passage has no location or one of another type. When the draft fails after
  retrieval, the citation of the response is \<open>null\<close>.
\<close>

theorem citation_is_first_passage_location:
  assumes "retrieve (retrieveInput kb (question ev)) = Inr rr"
    and "retrievalResults rr = Some (first # others)"
  shows "(statusCode (snd (handler kb retrieve invoke ev)) = 200 \<longrightarrow>
            citation (body (snd (handler kb retrieve invoke ev))) = extract_citation first \<and>
            (\<forall>l u. location first = Some l \<and> loc_type l = ''S3'' \<and> s3Location_uri l = Some u \<longrightarrow>
               citation (body (snd (handler kb retrieve invoke ev))) = JStr u) \<and>
            (\<forall>l u. location first = Some l \<and> loc_type l = ''WEB'' \<and> webLocation_url l = Some u \<longrightarrow>
               citation (body (snd (handler kb retrieve invoke ev))) = JStr u) \<and>
            (\<forall>l. location first = Some l \<and>
                 (loc_type l = ''S3'' \<and> s3Location_uri l = None \<or>
                  loc_type l = ''WEB'' \<and> webLocation_url l = None) \<longrightarrow>
               citation (body (snd (handler kb retrieve invoke ev))) = JUndefined) \<and>
            (\<forall>l. location first = Some l \<and> loc_type l \<noteq> ''S3'' \<and> loc_type l \<noteq> ''WEB'' \<longrightarrow>
               citation (body (snd (handler kb retrieve invoke ev))) = JNull) \<and>
            (location first = None \<longrightarrow>
               citation (body (snd (handler kb retrieve invoke ev))) = JNull)) \<and>
         (statusCode (snd (handler kb retrieve invoke ev)) \<noteq> 200 \<longrightarrow>
            citation (body (snd (handler kb retrieve invoke ev))) = JNull)"
proof -
  have ok: "citation (body (snd (handler kb retrieve invoke ev))) = extract_citation first"
    if "statusCode (snd (handler kb retrieve invoke ev)) = 200"
  proof -
    from handler_success [OF that] assms(1) obtain s where
      "snd (handler kb retrieve invoke ev) =
         makeResults 200 (''Hi {{CUSTOMER_NAME}},\<newline>\<newline>'' @ s)
           (citationUrl_of rr) (requestSessionId ev)"
      by auto
    then have "citation (body (snd (handler kb retrieve invoke ev))) = citationUrl_of rr"
      by (simp add: makeResults_def)
    with assms(2) show ?thesis by (simp add: citationUrl_of_def)
  qed
  have shape:
    "(\<forall>l u. location first = Some l \<and> loc_type l = ''S3'' \<and> s3Location_uri l = Some u \<longrightarrow>
        extract_citation first = JStr u) \<and>
     (\<forall>l u. location first = Some l \<and> loc_type l = ''WEB'' \<and> webLocation_url l = Some u \<longrightarrow>
        extract_citation first = JStr u) \<and>
     (\<forall>l. location first = Some l \<and>
           (loc_type l = ''S3'' \<and> s3Location_uri l = None \<or>
            loc_type l = ''WEB'' \<and> webLocation_url l = None) \<longrightarrow>
        extract_citation first = JUndefined) \<and>
     (\<forall>l. location first = Some l \<and> loc_type l \<noteq> ''S3'' \<and> loc_type l \<noteq> ''WEB'' \<longrightarrow>
        extract_citation first = JNull) \<and>
     (location first = None \<longrightarrow> extract_citation first = JNull)"
    by (auto simp: extract_citation_def)
  have failed: "citation (body (snd (handler kb retrieve invoke ev))) = JNull"
    if "statusCode (snd (handler kb retrieve invoke ev)) \<noteq> 200"
    using handler_failure [of kb retrieve invoke ev] that
    by (auto simp: on_error_def makeResults_def)
  have A: "statusCode (snd (handler kb retrieve invoke ev)) = 200 \<longrightarrow>
            citation (body (snd (handler kb retrieve invoke ev))) = extract_citation first \<and>
            (\<forall>l u. location first = Some l \<and> loc_type l = ''S3'' \<and> s3Location_uri l = Some u \<longrightarrow>
               citation (body (snd (handler kb retrieve invoke ev))) = JStr u) \<and>
            (\<forall>l u. location first = Some l \<and> loc_type l = ''WEB'' \<and> webLocation_url l = Some u \<longrightarrow>
               citation (body (snd (handler kb retrieve invoke ev))) = JStr u) \<and>
            (\<forall>l. location first = Some l \<and>
                 (loc_type l = ''S3'' \<and> s3Location_uri l = None \<or>
                  loc_type l = ''WEB'' \<and> webLocation_url l = None) \<longrightarrow>
               citation (body (snd (handler kb retrieve invoke ev))) = JUndefined) \<and>
            (\<forall>l. location first = Some l \<and> loc_type l \<noteq> ''S3'' \<and> loc_type l \<noteq> ''WEB'' \<longrightarrow>
               citation (body (snd (handler kb retrieve invoke ev))) = JNull) \<and>
            (location first = None \<longrightarrow>
               citation (body (snd (handler kb retrieve invoke ev))) = JNull)"
  proof (rule impI)
    assume s: "statusCode (snd (handler kb retrieve invoke ev)) = 200"
    show "citation (body (snd (handler kb retrieve invoke ev))) = extract_citation first \<and>
            (\<forall>l u. location first = Some l \<and> loc_type l = ''S3'' \<and> s3Location_uri l = Some u \<longrightarrow>
               citation (body (snd (handler kb retrieve invoke ev))) = JStr u) \<and>
            (\<forall>l u. location first = Some l \<and> loc_type l = ''WEB'' \<and> webLocation_url l = Some u \<longrightarrow>
               citation (body (snd (handler kb retrieve invoke ev))) = JStr u) \<and>
            (\<forall>l. location first = Some l \<and>
                 (loc_type l = ''S3'' \<and> s3Location_uri l = None \<or>
                  loc_type l = ''WEB'' \<and> webLocation_url l = None) \<longrightarrow>
               citation (body (snd (handler kb retrieve invoke ev))) = JUndefined) \<and>
            (\<forall>l. location first = Some l \<and> loc_type l \<noteq> ''S3'' \<and> loc_type l \<noteq> ''WEB'' \<longrightarrow>
               citation (body (snd (handler kb retrieve invoke ev))) = JNull) \<and>
            (location first = None \<longrightarrow>
               citation (body (snd (handler kb retrieve invoke ev))) = JNull)"
      unfolding ok [OF s] using shape by blast
  qed
  have B: "statusCode (snd (handler kb retrieve invoke ev)) \<noteq> 200 \<longrightarrow>
            citation (body (snd (handler kb retrieve invoke ev))) = JNull"
    using failed by blast
  from A B show ?thesis by (rule conjI)
qed

theorem citation_witness:
  "statusCode (snd (handler (Some ''KB'') (ex_retrieve [ex_passage, ex_passage_web]) ex_invoke ex_event)) = 200 \<and>
   citation (body (snd (handler (Some ''KB'') (ex_retrieve [ex_passage, ex_passage_web]) ex_invoke ex_event)))
     = JStr ''s3://bucket/docs/guide.pdf'' \<and>
   citation (body (snd (handler (Some ''KB'') (ex_retrieve [ex_passage_web, ex_passage, ex_passage]) ex_invoke ex_event)))
     = JStr ''https://example.com/faq'' \<and>
   statusCode (snd (handler (Some ''KB'') (ex_retrieve [ex_passage_web]) ex_invoke_throws ex_event)) \<noteq> 200 \<and>
   citation (body (snd (handler (Some ''KB'') (ex_retrieve [ex_passage_web]) ex_invoke_throws ex_event)))
     = JNull"
proof -
  have r: "ex_retrieve ps (retrieveInput (Some ''KB'') (question ex_event)) =
             Inr \<lparr> retrievalResults = Some ps \<rparr>" for ps
    by (simp add: ex_retrieve_def)
  have p: "retrievalResults \<lparr> retrievalResults = Some ps \<rparr> = Some ps" for ps
    by simp
  have ok1: "statusCode (snd (handler (Some ''KB'') (ex_retrieve [ex_passage, ex_passage_web]) ex_invoke ex_event)) = 200"
    by (simp add: handler_simps step_simps ex_retrieve_def ex_invoke_def ex_event_def
        ex_passage_def ex_passage_web_def)
  have ok2: "statusCode (snd (handler (Some ''KB'') (ex_retrieve [ex_passage_web, ex_passage, ex_passage]) ex_invoke ex_event)) = 200"
    by (simp add: handler_simps step_simps ex_retrieve_def ex_invoke_def ex_event_def
        ex_passage_def ex_passage_web_def)
  have ko: "statusCode (snd (handler (Some ''KB'') (ex_retrieve [ex_passage_web]) ex_invoke_throws ex_event)) \<noteq> 200"
    by (simp add: handler_simps step_simps ex_retrieve_def ex_invoke_throws_def ex_event_def
        ex_passage_web_def)
  have e1: "extract_citation ex_passage = JStr ''s3://bucket/docs/guide.pdf''"
    by (simp add: extract_citation_def ex_passage_def)
  have e2: "extract_citation ex_passage_web = JStr ''https://example.com/faq''"
    by (simp add: extract_citation_def ex_passage_web_def)
  from citation_is_first_passage_location
         [where retrieve = "ex_retrieve [ex_passage, ex_passage_web]" and invoke = ex_invoke,
          OF r p] ok1
  have "citation (body (snd (handler (Some ''KB'') (ex_retrieve [ex_passage, ex_passage_web]) ex_invoke ex_event)))
     = extract_citation ex_passage"
    by blast
  with e1 have c1: "citation (body (snd (handler (Some ''KB'') (ex_retrieve [ex_passage, ex_passage_web]) ex_invoke ex_event)))
     = JStr ''s3://bucket/docs/guide.pdf''"
    by (simp only:)
  from citation_is_first_passage_location
         [where retrieve = "ex_retrieve [ex_passage_web, ex_passage, ex_passage]" and invoke = ex_invoke,
          OF r p] ok2
  have "citation (body (snd (handler (Some ''KB'') (ex_retrieve [ex_passage_web, ex_passage, ex_passage]) ex_invoke ex_event)))
     = extract_citation ex_passage_web"
    by blast
  with e2 have c2: "citation (body (snd (handler (Some ''KB'') (ex_retrieve [ex_passage_web, ex_passage, ex_passage]) ex_invoke ex_event)))
     = JStr ''https://example.com/faq''"
    by (simp only:)
  from citation_is_first_passage_location
         [where retrieve = "ex_retrieve [ex_passage_web]" and invoke = ex_invoke_throws,
          OF r p] ko
  have c3: "citation (body (snd (handler (Some ''KB'') (ex_retrieve [ex_passage_web]) ex_invoke_throws ex_event)))
     = JNull"
    by blast
  from ok1 c1 c2 ko c3 show ?thesis by blast
qed

theorem citation_counterexample:
  "location ex_passage =
     Some \<lparr> loc_type = ''S3'', s3Location_uri = Some ''s3://bucket/docs/guide.pdf'',
            webLocation_url = None \<rparr> \<and>
   snd (handler (Some ''KB'') (ex_retrieve [ex_passage]) ex_invoke_throws ex_event) =
     \<lparr> statusCode = 500,
       body = \<lparr> response = ''Server side error: ThrottlingException: Too many requests'',
                citation = JNull, sessionId = JNull \<rparr>,
       headers = [(''Access-Control-Allow-Origin'', ''*'')] \<rparr>"
  by (simp add: handler_simps step_simps ex_retrieve_def ex_invoke_throws_def ex_event_def
      ex_passage_def)

text \<open>
  C3. When retrieval returns no passage (the list is missing or empty), the citation of the
  response is \<open>null\<close>, and the user prompt sent to the model contains the instruction that
  the knowledge base holds nothing relevant; the prompt is assembled and sent whenever the
  conversation history and the question can be rendered.
\<close>

theorem no_passages_prompt_and_citation:
  assumes "retrieve (retrieveInput kb (question ev)) = Inr rr"
    and "retrievalResults rr = None \<or> retrievalResults rr = Some []"
  shows "citation (body (snd (handler kb retrieve invoke ev))) = JNull \<and>
         (\<forall>i. InvokeModelCommand i \<in> set (fst (handler kb retrieve invoke ev)) \<longrightarrow>
            (\<exists>p. messages (inv_body i) =
                    [\<lparr> msg_role = ''user'', msg_content = p \<rparr>,
                     \<lparr> msg_role = ''assistant'', msg_content = ''Hi {{CUSTOMER_NAME}},'' \<rparr>] \<and>
                  includes_str p
                    ''The company knowledge base does not contain information relevant to this inquiry.'')) \<and>
         (\<forall>sec qs. conversationHistorySection (conversationHistory ev) = Inr sec \<and>
                   js_to_string (question ev) = Inr qs \<longrightarrow>
            (\<exists>i. fst (handler kb retrieve invoke ev) =
               [RetrieveCommand (retrieveInput kb (question ev)), InvokeModelCommand i]))"
proof -
  from assms(2) have ctx: "context_of rr = []" and cit: "citationUrl_of rr = JNull"
    by (auto simp: context_of_def citationUrl_of_def)
  have a: "citation (body (snd (handler kb retrieve invoke ev))) = JNull"
  proof -
    from handler_failure [of kb retrieve invoke ev] show ?thesis
    proof
      assume "statusCode (snd (handler kb retrieve invoke ev)) = 200"
      from handler_success [OF this] assms(1) cit show ?thesis
        by (auto simp: makeResults_def)
    next
      assume "\<exists>err. snd (handler kb retrieve invoke ev) = on_error err"
      then show ?thesis by (auto simp: on_error_def makeResults_def)
    qed
  qed
  have b: "\<exists>p. messages (inv_body i) =
                    [\<lparr> msg_role = ''user'', msg_content = p \<rparr>,
                     \<lparr> msg_role = ''assistant'', msg_content = ''Hi {{CUSTOMER_NAME}},'' \<rparr>] \<and>
                  includes_str p
                    ''The company knowledge base does not contain information relevant to this inquiry.''"
    if "InvokeModelCommand i \<in> set (fst (handler kb retrieve invoke ev))" for i
  proof -
    from handler_calls [of kb retrieve invoke ev] that assms(1) ctx obtain sec p where
      u: "userPrompt sec [] (question ev) (conversationHistory ev) = Inr p" and
      i: "i = invokeInput (js_or (modelId ev) (JStr ''anthropic.claude-3-haiku-20240307-v1:0'')) p"
      by auto
    from userPrompt_no_context [OF u] i show ?thesis by (simp add: invokeInput_def)
  qed
  have c: "\<exists>i. fst (handler kb retrieve invoke ev) =
               [RetrieveCommand (retrieveInput kb (question ev)), InvokeModelCommand i]"
    if h: "conversationHistorySection (conversationHistory ev) = Inr sec"
      and q: "js_to_string (question ev) = Inr qs" for sec qs
  proof -
    from userPrompt_rendered [OF q] obtain p where
      "userPrompt sec (context_of rr) (question ev) (conversationHistory ev) = Inr p" by blast
    from handler_invoked [where retrieve = retrieve and invoke = invoke, OF assms(1) h this]
    show ?thesis by simp
  qed
  from a b c show ?thesis by blast
qed

theorem no_passages_witness:
  "citation (body (snd (handler (Some ''KB'') (ex_retrieve []) ex_invoke ex_event))) = JNull \<and>
   citation (body (snd (handler (Some ''KB'') ex_retrieve_missing ex_invoke ex_event))) = JNull \<and>
   (\<exists>i p. fst (handler (Some ''KB'') (ex_retrieve []) ex_invoke ex_event) =
        [RetrieveCommand (retrieveInput (Some ''KB'') (JStr ''Q'')), InvokeModelCommand i] \<and>
      messages (inv_body i) =
                    [\<lparr> msg_role = ''user'', msg_content = p \<rparr>,
                     \<lparr> msg_role = ''assistant'', msg_content = ''Hi {{CUSTOMER_NAME}},'' \<rparr>] \<and>
      includes_str p ''The company knowledge base does not contain information relevant to this inquiry.'')"
  using no_passages_prompt_and_citation
          [of "ex_retrieve []" "Some ''KB''" ex_event "\<lparr>retrievalResults = Some []\<rparr>" ex_invoke]
        no_passages_prompt_and_citation
          [of ex_retrieve_missing "Some ''KB''" ex_event "\<lparr>retrievalResults = None\<rparr>" ex_invoke]
  by (auto simp add: ex_retrieve_def ex_retrieve_missing_def ex_event_def conversationHistorySection_def)

text \<open>
  C7. A request whose question is missing, is not a string, is empty or holds only white
  space is answered with status 400 and the body \<open>{statusCode, error, message}\<close>, and
  nothing is forwarded to the orchestrator.
\<close>

theorem blank_question_is_rejected:
  assumes "req_question req = JUndefined \<or> \<not> typeof_string (req_question req) \<or>
           req_question req = JStr [] \<or>
           (\<exists>s. req_question req = JStr s \<and> (\<forall>c \<in> set s. is_js_whitespace c))"
  shows "ai_draft fetch req =
           ([], \<lparr> status = 400,
                  json = ErrorBody 400 ''Bad Request'' ''Missing required parameter: question'' \<rparr>)"
proof -
  from assms have "\<not> js_truthy (req_question req) \<or> \<not> typeof_string (req_question req) \<or>
      length (js_trim (str_of (req_question req))) = 0"
    by (auto simp: js_trim_blank)
  then show ?thesis by (simp add: ai_draft_def Let_def bad_request_def)
qed

theorem blank_question_witness:
  "ai_draft ex_fetch_rejects ex_req_blank =
     ([], \<lparr> status = 400,
            json = ErrorBody 400 ''Bad Request'' ''Missing required parameter: question'' \<rparr>)"
  using blank_question_is_rejected [of ex_req_blank ex_fetch_rejects]
  by (simp add: ex_req_blank_def is_js_whitespace_def)

text \<open>
  C10, as amended. Let the conversation history be an array with an entry \<open>m\<close> whose role or content
  is the empty string. If the request passes the checks of the question and of the model
  and every entry before \<open>m\<close> is accepted, the gateway answers with status 400 and the
  message that each conversation message must have role and content: an empty string
  counts as a missing field. Whatever the rest of the request, as long as no entry before
  \<open>m\<close> is \<open>null\<close>, the answer is a 400 error body and nothing is forwarded.
\<close>

theorem empty_history_field_is_rejected:
  assumes "req_conversationHistory req = JArr (pre @ m # post)"
    and "js_prop m ''role'' = Inr (JStr []) \<or> js_prop m ''content'' = Inr (JStr [])"
  shows "(js_truthy (req_question req) \<and> typeof_string (req_question req) \<and>
          js_trim (str_of (req_question req)) \<noteq> [] \<and>
          (\<not> js_truthy (req_modelId req) \<or> req_modelId req \<in> set (map JStr validModels)) \<and>
          (\<forall>e \<in> set pre. check_messages [e] = Inr None) \<longrightarrow>
            ai_draft fetch req =
              ([], \<lparr> status = 400,
                     json = ErrorBody 400 ''Bad Request''
                              ''Each conversation message must have role and content'' \<rparr>)) \<and>
         ((\<forall>e \<in> set pre. e \<noteq> JNull \<and> e \<noteq> JUndefined) \<longrightarrow>
            (\<exists>msg. ai_draft fetch req =
                     ([], \<lparr> status = 400, json = ErrorBody 400 ''Bad Request'' msg \<rparr>)))"
proof -
  have a: "ai_draft fetch req =
              ([], \<lparr> status = 400,
                     json = ErrorBody 400 ''Bad Request''
                              ''Each conversation message must have role and content'' \<rparr>)"
    if q: "js_truthy (req_question req)" "typeof_string (req_question req)"
          "js_trim (str_of (req_question req)) \<noteq> []"
          "\<not> js_truthy (req_modelId req) \<or> req_modelId req \<in> set (map JStr validModels)"
      and p: "\<forall>e \<in> set pre. check_messages [e] = Inr None"
  proof -
    have "check_messages (pre @ m # post) =
            Inr (Some (bad_request ''Each conversation message must have role and content''))"
      using check_messages_append [OF p] check_messages_empty_field [OF assms(2)] by simp
    with q assms(1) show ?thesis by (simp add: ai_draft_def Let_def bad_request_def)
  qed
  have b: "\<exists>msg. ai_draft fetch req =
                     ([], \<lparr> status = 400, json = ErrorBody 400 ''Bad Request'' msg \<rparr>)"
    if p: "\<forall>e \<in> set pre. e \<noteq> JNull \<and> e \<noteq> JUndefined"
  proof -
    from check_messages_objects [OF p assms(2)] obtain msg where
      "check_messages (pre @ m # post) = Inr (Some (bad_request msg))" by blast
    with assms(1) show ?thesis by (simp add: ai_draft_def Let_def bad_request_def)
  qed
  from a b show ?thesis by blast
qed

theorem empty_history_field_witness:
  "ai_draft ex_fetch_rejects ex_req_empty_content =
     ([], \<lparr> status = 400,
            json = ErrorBody 400 ''Bad Request''
                     ''Each conversation message must have role and content'' \<rparr>)"
  using empty_history_field_is_rejected
          [of ex_req_empty_content
              "[JObj [(''role'', JStr ''customer''), (''content'', JStr ''I placed an order last week'')]]"
              "JObj [(''role'', JStr ''agent''), (''content'', JStr [])]" "[]" ex_fetch_rejects]
  by (simp add: ex_req_empty_content_def validModels_def js_trim_def is_js_whitespace_def)

theorem empty_history_field_counterexample:
  "ai_draft ex_fetch_rejects ex_req_bot_before_empty =
     ([], \<lparr> status = 400,
            json = ErrorBody 400 ''Bad Request''
                     ''Message role must be either \"customer\" or \"agent\"'' \<rparr>) \<and>
   ai_draft ex_fetch_rejects ex_req_null_before_empty =
     ([], \<lparr> status = 500,
            json = ErrorBody 500 ''Internal Server Error'' ''Error invoking Bedrock model'' \<rparr>)"
  by (simp add: ai_draft_def Let_def ex_req_bot_before_empty_def ex_req_null_before_empty_def
      js_trim_def is_js_whitespace_def bad_request_def on_catch_def)




text \<open>
  C1, as amended. When the Retrieve or the Invoke step throws, the orchestrator returns
  status 500 with the response text \<open>Server side error: \<close> followed by the message of the
  exception, and \<open>null\<close> citation and session id. The gateway does not pass that text on:
  for a forwarded request on which the orchestrator returns 500, the gateway's client
  receives the fixed 503 body.
\<close>

theorem failure_response_carries_exception_message:
  "(retrieve (retrieveInput kb (question ev)) = Inl err \<longrightarrow>
      snd (handler kb retrieve invoke ev) =
        \<lparr> statusCode = 500,
          body = \<lparr> response = ''Server side error: '' @ err_message err, citation = JNull,
                   sessionId = JNull \<rparr>,
          headers = [(''Access-Control-Allow-Origin'', ''*'')] \<rparr>) \<and>
   (\<forall>i. fst (handler kb retrieve invoke ev) =
           [RetrieveCommand (retrieveInput kb (question ev)), InvokeModelCommand i] \<and>
         invoke i = Inl err \<longrightarrow>
      snd (handler kb retrieve invoke ev) =
        \<lparr> statusCode = 500,
          body = \<lparr> response = ''Server side error: '' @ err_message err, citation = JNull,
                   sessionId = JNull \<rparr>,
          headers = [(''Access-Control-Allow-Origin'', ''*'')] \<rparr>) \<and>
   (fst (ai_draft (api_gateway stringify (handler kb retrieve invoke)) req) = [queryRequest req] \<and>
    statusCode (snd (handler kb retrieve invoke (to_event_body (queryRequest req)))) = 500 \<longrightarrow>
      snd (ai_draft (api_gateway stringify (handler kb retrieve invoke)) req) =
        \<lparr> status = 503,
          json = ErrorBody 503 ''Service Unavailable''
                   ''Bedrock Knowledge Base temporarily unavailable'' \<rparr>)"
proof -
  have a: "snd (handler kb retrieve invoke ev) =
        \<lparr> statusCode = 500,
          body = \<lparr> response = ''Server side error: '' @ err_message err, citation = JNull,
                   sessionId = JNull \<rparr>,
          headers = [(''Access-Control-Allow-Origin'', ''*'')] \<rparr>"
    if "retrieve (retrieveInput kb (question ev)) = Inl err"
    using handler_retrieve_throws [where retrieve = retrieve and invoke = invoke, OF that]
    by (simp add: on_error_def makeResults_def)
  have b: "snd (handler kb retrieve invoke ev) =
        \<lparr> statusCode = 500,
          body = \<lparr> response = ''Server side error: '' @ err_message err, citation = JNull,
                   sessionId = JNull \<rparr>,
          headers = [(''Access-Control-Allow-Origin'', ''*'')] \<rparr>"
    if "fst (handler kb retrieve invoke ev) =
           [RetrieveCommand (retrieveInput kb (question ev)), InvokeModelCommand i]"
      and "invoke i = Inl err" for i
    using that
    by (auto simp: handler_def Let_def on_error_def makeResults_def split: sum.splits)
  have c: "snd (ai_draft (api_gateway stringify (handler kb retrieve invoke)) req) =
        \<lparr> status = 503,
          json = ErrorBody 503 ''Service Unavailable''
                   ''Bedrock Knowledge Base temporarily unavailable'' \<rparr>"
    if f: "fst (ai_draft (api_gateway stringify (handler kb retrieve invoke)) req) = [queryRequest req]"
      and h: "statusCode (snd (handler kb retrieve invoke (to_event_body (queryRequest req)))) = 500"
  proof -
    from h have "invokeQuery (api_gateway stringify (handler kb retrieve invoke)) (queryRequest req) =
        Inl (Error (''API Gateway returned status '' @ decimal 500 @ '': '' @
                    stringify (body (snd (handler kb retrieve invoke (to_event_body (queryRequest req)))))))"
      by (simp add: invokeQuery_def api_gateway_def Let_def reply_ok_def)
    with ai_draft_forwarded [OF f] show ?thesis
      using includes_api_gateway by (simp add: on_catch_def)
  qed
  from a b c show ?thesis by blast
qed

theorem failure_response_witness:
  "snd (handler (Some ''KB'') (ex_retrieve []) ex_invoke_throws ex_event) =
     \<lparr> statusCode = 500,
       body = \<lparr> response = ''Server side error: ThrottlingException: Too many requests'',
                citation = JNull, sessionId = JNull \<rparr>,
       headers = [(''Access-Control-Allow-Origin'', ''*'')] \<rparr> \<and>
   snd (handler (Some ''KB'') ex_retrieve_throws ex_invoke (to_event_body (queryRequest ex_req))) =
     \<lparr> statusCode = 500,
       body = \<lparr> response = ''Server side error: connect ECONNREFUSED 10.0.0.7:443'',
                citation = JNull, sessionId = JNull \<rparr>,
       headers = [(''Access-Control-Allow-Origin'', ''*'')] \<rparr> \<and>
   snd (ai_draft (api_gateway ex_stringify (handler (Some ''KB'') ex_retrieve_throws ex_invoke)) ex_req) =
     \<lparr> status = 503,
       json = ErrorBody 503 ''Service Unavailable''
                ''Bedrock Knowledge Base temporarily unavailable'' \<rparr>"
  using failure_response_carries_exception_message
          [of ex_retrieve_throws "Some ''KB''" "to_event_body (queryRequest ex_req)"
              "Error ''connect ECONNREFUSED 10.0.0.7:443''" ex_invoke ex_stringify ex_req]
        failure_response_carries_exception_message
          [of "ex_retrieve []" "Some ''KB''" ex_event
              "Error ''ThrottlingException: Too many requests''" ex_invoke_throws ex_stringify ex_req]
  by (simp add: handler_simps step_simps ex_retrieve_def ex_invoke_throws_def ex_event_def
      ex_retrieve_throws_def ex_req_def ex_stringify_def ai_draft_def queryRequest_def
      to_event_body_def js_trim_def is_js_whitespace_def invokeQuery_def api_gateway_def
      reply_ok_def on_catch_def decimal.simps digit_char_def)

theorem failure_response_counterexample:
  "snd (handler (Some ''KB'') ex_retrieve_throws ex_invoke ex_event) =
     \<lparr> statusCode = 500,
       body = \<lparr> response = ''Server side error: connect ECONNREFUSED 10.0.0.7:443'',
                citation = JNull, sessionId = JNull \<rparr>,
       headers = [(''Access-Control-Allow-Origin'', ''*'')] \<rparr> \<and>
   includes_str (response (body (snd (handler (Some ''KB'') ex_retrieve_throws ex_invoke ex_event))))
     ''connect ECONNREFUSED 10.0.0.7:443''"
  by (simp add: handler_simps step_simps ex_retrieve_throws_def ex_event_def)

text \<open>
  C8, as amended. The orchestrator makes one retrieval call, with the question of the
  request it received, unchanged, and a top-K of 5. The gateway forwards the question
  with white space trimmed from both ends, so for a request accepted by the gateway the
  retrieval text is the trimmed question.
\<close>

theorem retrieval_call_question_and_top_k:
  "retrieve_inputs (fst (handler kb retrieve invoke ev)) =
     [\<lparr> knowledgeBaseId = kb, retrievalQuery_text = question ev, numberOfResults = 5 \<rparr>] \<and>
   (fst (ai_draft fetch req) = [q] \<longrightarrow>
      retrieve_inputs (fst (handler kb retrieve invoke (to_event_body q))) =
        [\<lparr> knowledgeBaseId = kb,
           retrievalQuery_text = JStr (js_trim (str_of (req_question req))),
           numberOfResults = 5 \<rparr>])"
proof -
  have a: "retrieve_inputs (fst (handler kb retrieve invoke e)) =
     [\<lparr> knowledgeBaseId = kb, retrievalQuery_text = question e, numberOfResults = 5 \<rparr>]" for e
    by (simp add: handler_retrieve_inputs retrieveInput_def)
  have "question (to_event_body q) = JStr (js_trim (str_of (req_question req)))"
    if "fst (ai_draft fetch req) = [q]"
    using ai_draft_forwarded [OF that] by (simp add: queryRequest_def to_event_body_def)
  with a show ?thesis by simp
qed

theorem retrieval_call_witness:
  "fst (ai_draft ex_fetch_500 ex_req) = [queryRequest ex_req] \<and>
   retrieve_inputs (fst (handler (Some ''KB'') (ex_retrieve []) ex_invoke (to_event_body (queryRequest ex_req)))) =
     [\<lparr> knowledgeBaseId = Some ''KB'',
        retrievalQuery_text = JStr ''How do I reset my password?'',
        numberOfResults = 5 \<rparr>]"
  using retrieval_call_question_and_top_k
          [of "Some ''KB''" "ex_retrieve []" ex_invoke "to_event_body (queryRequest ex_req)"
              ex_fetch_500 ex_req "queryRequest ex_req"]
  by (simp add: ai_draft_def Let_def ex_req_def ex_fetch_500_def js_trim_def is_js_whitespace_def
      invokeQuery_def reply_ok_def on_catch_def queryRequest_def to_event_body_def)

theorem retrieval_call_counterexample:
  "req_question ex_req_padded = JStr '' hi '' \<and>
   fst (ai_draft ex_fetch_500 ex_req_padded) = [queryRequest ex_req_padded] \<and>
   retrieve_inputs
     (fst (handler (Some ''KB'') (ex_retrieve []) ex_invoke (to_event_body (queryRequest ex_req_padded)))) =
     [\<lparr> knowledgeBaseId = Some ''KB'', retrievalQuery_text = JStr ''hi'', numberOfResults = 5 \<rparr>]"
  by (simp add: handler_retrieve_inputs retrieveInput_def ai_draft_def Let_def ex_req_padded_def
      ex_fetch_500_def js_trim_def is_js_whitespace_def invokeQuery_def reply_ok_def on_catch_def
      queryRequest_def to_event_body_def)

text \<open>
  C9, as amended. Let \<open>modelId\<close> be missing, \<open>null\<close> or the empty string. Every model
  invocation the orchestrator makes then names the model
  \<open>anthropic.claude-3-haiku-20240307-v1:0\<close>, and it makes one whenever retrieval returns
  and the conversation history and the question can be rendered; when retrieval throws,
  no model is invoked. The gateway never answers such a request with the invalid-model
  error, and forwards it, with \<open>modelId\<close> as it came, when the question and the history
  pass their checks.
\<close>

theorem absent_model_uses_default:
  assumes "m = JUndefined \<or> m = JNull \<or> m = JStr []"
  shows "(modelId ev = m \<longrightarrow>
            (\<forall>i. InvokeModelCommand i \<in> set (fst (handler kb retrieve invoke ev)) \<longrightarrow>
                 inv_modelId i = JStr ''anthropic.claude-3-haiku-20240307-v1:0'') \<and>
            (\<forall>rr sec qs.
               retrieve (retrieveInput kb (question ev)) = Inr rr \<and>
               conversationHistorySection (conversationHistory ev) = Inr sec \<and>
               js_to_string (question ev) = Inr qs \<longrightarrow>
                 (\<exists>i. fst (handler kb retrieve invoke ev) =
                         [RetrieveCommand (retrieveInput kb (question ev)), InvokeModelCommand i] \<and>
                       inv_modelId i = JStr ''anthropic.claude-3-haiku-20240307-v1:0'')) \<and>
            (\<forall>err. retrieve (retrieveInput kb (question ev)) = Inl err \<longrightarrow>
               fst (handler kb retrieve invoke ev) =
                 [RetrieveCommand (retrieveInput kb (question ev))])) \<and>
         (req_modelId req = m \<longrightarrow>
            json (snd (ai_draft fetch req)) \<noteq>
              ErrorBody 400 ''Bad Request''
                ''Invalid modelId. Must be one of: anthropic.claude-3-haiku-20240307-v1:0, anthropic.claude-3-sonnet-20240229-v1:0, anthropic.claude-3-opus-20240229-v1:0'' \<and>
            (js_truthy (req_question req) \<and> typeof_string (req_question req) \<and>
             js_trim (str_of (req_question req)) \<noteq> [] \<and>
             (\<not> js_truthy (req_conversationHistory req) \<or>
              (isArray (req_conversationHistory req) \<and>
               check_messages (elements (req_conversationHistory req)) = Inr None)) \<longrightarrow>
               fst (ai_draft fetch req) = [queryRequest req] \<and>
               modelId (to_event_body (queryRequest req)) = m))"
proof -
  from assms have f: "\<not> js_truthy m" by auto
  have sel: "js_or (modelId ev) (JStr ''anthropic.claude-3-haiku-20240307-v1:0'') =
               JStr ''anthropic.claude-3-haiku-20240307-v1:0''"
    if "modelId ev = m"
    using f that by (simp add: js_or_def)
  have a1: "inv_modelId i = JStr ''anthropic.claude-3-haiku-20240307-v1:0''"
    if e: "modelId ev = m" and i: "InvokeModelCommand i \<in> set (fst (handler kb retrieve invoke ev))"
    for i
  proof -
    from handler_calls [of kb retrieve invoke ev] i obtain p where
      "i = invokeInput (js_or (modelId ev) (JStr ''anthropic.claude-3-haiku-20240307-v1:0'')) p"
      by auto
    with sel [OF e] show ?thesis by (simp add: invokeInput_def)
  qed
  have a2: "\<exists>i. fst (handler kb retrieve invoke ev) =
                  [RetrieveCommand (retrieveInput kb (question ev)), InvokeModelCommand i] \<and>
                inv_modelId i = JStr ''anthropic.claude-3-haiku-20240307-v1:0''"
    if e: "modelId ev = m" and r: "retrieve (retrieveInput kb (question ev)) = Inr rr"
      and s: "conversationHistorySection (conversationHistory ev) = Inr sec"
      and q: "js_to_string (question ev) = Inr qs" for rr sec qs
  proof -
    from userPrompt_rendered [OF q] obtain p where
      u: "userPrompt sec (context_of rr) (question ev) (conversationHistory ev) = Inr p" by blast
    from handler_invoked [where retrieve = retrieve and invoke = invoke, OF r s u] sel [OF e]
    show ?thesis by (simp add: invokeInput_def)
  qed
  have a3: "fst (handler kb retrieve invoke ev) = [RetrieveCommand (retrieveInput kb (question ev))]"
    if "retrieve (retrieveInput kb (question ev)) = Inl err" for err
    using handler_retrieve_throws [where retrieve = retrieve and invoke = invoke, OF that] by simp
  have b1: "json (snd (ai_draft fetch req)) \<noteq>
              ErrorBody 400 ''Bad Request''
                ''Invalid modelId. Must be one of: anthropic.claude-3-haiku-20240307-v1:0, anthropic.claude-3-sonnet-20240229-v1:0, anthropic.claude-3-opus-20240229-v1:0''"
    if "req_modelId req = m"
    using ai_draft_model_not_refused [of req fetch] f that by simp
  have b2: "fst (ai_draft fetch req) = [queryRequest req] \<and>
            modelId (to_event_body (queryRequest req)) = m"
    if "req_modelId req = m" and "js_truthy (req_question req)" and "typeof_string (req_question req)"
      and "js_trim (str_of (req_question req)) \<noteq> []"
      and "\<not> js_truthy (req_conversationHistory req) \<or>
           (isArray (req_conversationHistory req) \<and>
            check_messages (elements (req_conversationHistory req)) = Inr None)"
    using ai_draft_accepts [of req fetch] that f
    by (simp add: queryRequest_def to_event_body_def)
  from a1 a2 a3 b1 b2 show ?thesis by blast
qed

theorem absent_model_witness:
  "modelId (to_event_body (queryRequest ex_req_session)) = JNull \<and>
   fst (ai_draft ex_fetch_500 ex_req_session) = [queryRequest ex_req_session] \<and>
   json (snd (ai_draft ex_fetch_500 ex_req_session)) =
     ErrorBody 503 ''Service Unavailable'' ''Bedrock Knowledge Base temporarily unavailable'' \<and>
   (\<exists>i. fst (handler (Some ''KB'') (ex_retrieve []) ex_invoke (to_event_body (queryRequest ex_req_session))) =
           [RetrieveCommand (retrieveInput (Some ''KB'') (JStr ''How do I reset my password?'')),
            InvokeModelCommand i] \<and>
         inv_modelId i = JStr ''anthropic.claude-3-haiku-20240307-v1:0'')"
proof -
  have m: "modelId (to_event_body (queryRequest ex_req_session)) = JNull"
    and q: "question (to_event_body (queryRequest ex_req_session)) = JStr ''How do I reset my password?''"
    and h: "conversationHistorySection (conversationHistory (to_event_body (queryRequest ex_req_session))) = Inr []"
    by (simp_all add: ex_req_session_def queryRequest_def to_event_body_def
        conversationHistorySection_def js_trim_def is_js_whitespace_def)
  have r: "ex_retrieve [] (retrieveInput (Some ''KB'') (question (to_event_body (queryRequest ex_req_session)))) =
             Inr \<lparr> retrievalResults = Some [] \<rparr>"
    by (simp add: ex_retrieve_def)
  have js: "js_to_string (question (to_event_body (queryRequest ex_req_session))) =
              Inr ''How do I reset my password?''"
    by (simp add: q)
  have g: "ai_draft ex_fetch_500 ex_req_session =
             ([queryRequest ex_req_session],
              \<lparr> status = 503,
                json = ErrorBody 503 ''Service Unavailable''
                         ''Bedrock Knowledge Base temporarily unavailable'' \<rparr>)"
    by (simp add: ai_draft_def Let_def ex_req_session_def ex_fetch_500_def js_trim_def
        is_js_whitespace_def invokeQuery_def reply_ok_def on_catch_def prod_eq_iff)
  note t = absent_model_uses_default
             [where m = JNull and ev = "to_event_body (queryRequest ex_req_session)"
                and retrieve = "ex_retrieve []" and invoke = ex_invoke and kb = "Some ''KB''"
                and req = ex_req_session and fetch = ex_fetch_500]
  from t m r h js have
    "\<exists>i. fst (handler (Some ''KB'') (ex_retrieve []) ex_invoke (to_event_body (queryRequest ex_req_session))) =
           [RetrieveCommand (retrieveInput (Some ''KB'') (question (to_event_body (queryRequest ex_req_session)))),
            InvokeModelCommand i] \<and>
         inv_modelId i = JStr ''anthropic.claude-3-haiku-20240307-v1:0''"
    by blast
  with m g show ?thesis by (simp add: q)
qed

theorem absent_model_counterexample:
  "modelId ex_event = JUndefined \<and>
   fst (handler (Some ''KB'') ex_retrieve_throws ex_invoke ex_event) =
     [RetrieveCommand
        \<lparr> knowledgeBaseId = Some ''KB'', retrievalQuery_text = JStr ''Q'', numberOfResults = 5 \<rparr>]"
  by (simp add: handler_simps retrieveInput_def ex_retrieve_throws_def ex_event_def)

text \<open>
  C4, as amended. On a successful draft the orchestrator passes \<open>requestSessionId\<close> to its
  response unchanged. The gateway's 200 response carries the \<open>requestSessionId\<close> of the
  request when that value is truthy, and \<open>null\<close> when it is missing, \<open>null\<close> or another
  falsy value, the empty string among them.
\<close>

theorem session_id_echo:
  "(statusCode (snd (handler kb retrieve invoke ev)) = 200 \<longrightarrow>
      sessionId (body (snd (handler kb retrieve invoke ev))) = requestSessionId ev) \<and>
   (status (snd (ai_draft (api_gateway stringify (handler kb retrieve invoke)) req)) = 200 \<longrightarrow>
      (\<exists>r c. json (snd (ai_draft (api_gateway stringify (handler kb retrieve invoke)) req)) =
         DraftBody r c
           (if js_truthy (req_requestSessionId req) then req_requestSessionId req else JNull)))"
proof -
  have a: "sessionId (body (snd (handler kb retrieve invoke e))) = requestSessionId e"
    if "statusCode (snd (handler kb retrieve invoke e)) = 200" for e
    using handler_success [OF that] by (auto simp: makeResults_def)
  have b: "\<exists>r c. json (snd (ai_draft (api_gateway stringify (handler kb retrieve invoke)) req)) =
         DraftBody r c
           (if js_truthy (req_requestSessionId req) then req_requestSessionId req else JNull)"
    if ok: "status (snd (ai_draft (api_gateway stringify (handler kb retrieve invoke)) req)) = 200"
  proof -
    from ai_draft_200 [OF ok] obtain result where
      q: "invokeQuery (api_gateway stringify (handler kb retrieve invoke)) (queryRequest req) = Inr result"
      and d: "ai_draft (api_gateway stringify (handler kb retrieve invoke)) req =
             ([queryRequest req],
              \<lparr> status = 200,
                json = DraftBody (qr_response result) (qr_citation result) (qr_sessionId result) \<rparr>)"
      by blast
    from invokeQuery_api_gateway [OF q] have
      k: "reply_ok \<lparr> reply_status = statusCode (snd (handler kb retrieve invoke (to_event_body (queryRequest req)))),
                    reply_text = Inr (stringify (body (snd (handler kb retrieve invoke (to_event_body (queryRequest req)))))),
                    reply_json = Inr (body_json (body (snd (handler kb retrieve invoke (to_event_body (queryRequest req)))))) \<rparr>"
      and s: "qr_sessionId result =
                js_or (sessionId (body (snd (handler kb retrieve invoke (to_event_body (queryRequest req)))))) JNull"
      by simp_all
    from k handler_status [of kb retrieve invoke "to_event_body (queryRequest req)"]
    have "statusCode (snd (handler kb retrieve invoke (to_event_body (queryRequest req)))) = 200"
      by (auto simp: reply_ok_def)
    from a [OF this] s have "qr_sessionId result = js_or (req_requestSessionId req) JNull"
      by (simp add: to_event_body_def queryRequest_def)
    with d show ?thesis by (simp add: js_or_def)
  qed
  from a b show ?thesis by blast
qed

theorem session_id_witness:
  "snd (ai_draft (api_gateway ex_stringify (handler (Some ''KB'') (ex_retrieve []) ex_invoke)) ex_req_session) =
     \<lparr> status = 200,
       json = DraftBody (JStr ''Hi {{CUSTOMER_NAME}},\<newline>\<newline>Thanks!'') JNull
                (JStr ''session-123-abc'') \<rparr> \<and>
   sessionId (body (snd (handler (Some ''KB'') (ex_retrieve []) ex_invoke ex_event))) = JStr ''s-1''"
  using session_id_echo
          [of "Some ''KB''" "ex_retrieve []" ex_invoke ex_event ex_stringify ex_req_session]
  by (simp add: handler_simps step_simps ex_retrieve_def ex_invoke_def ex_event_def
      ex_req_session_def ex_stringify_def ai_draft_def queryRequest_def
      to_event_body_def js_trim_def is_js_whitespace_def invokeQuery_def api_gateway_def
      reply_ok_def body_json_def js_or_def)

theorem session_id_counterexample:
  "req_requestSessionId ex_req_empty_session = JStr [] \<and>
   snd (ai_draft (api_gateway ex_stringify (handler (Some ''KB'') (ex_retrieve []) ex_invoke))
          ex_req_empty_session) =
     \<lparr> status = 200,
       json = DraftBody (JStr ''Hi {{CUSTOMER_NAME}},\<newline>\<newline>Thanks!'') JNull JNull \<rparr> \<and>
   requestSessionId ex_event = JStr ''s-1'' \<and>
   sessionId (body (snd (handler (Some ''KB'') ex_retrieve_throws ex_invoke ex_event))) = JNull"
  by (simp add: handler_simps step_simps ex_retrieve_def ex_invoke_def ex_event_def
      ex_req_empty_session_def ex_stringify_def ex_retrieve_throws_def ai_draft_def queryRequest_def
      to_event_body_def js_trim_def is_js_whitespace_def invokeQuery_def api_gateway_def
      reply_ok_def body_json_def js_or_def)

end
